theory Spec2Isabelle
  imports Complex_Main
begin

section \<open>Python values, exceptions and the environment\<close>

text \<open>
  A Python \<open>str\<close> is a sequence of Unicode code points, so it is modelled as a list of
  natural numbers (an Isabelle \<open>char\<close> has only eight bits).  \<open>ascii\<close> embeds an ASCII
  literal of the source; the Turkish letters of the messages are written by code point
  (\<open>231\<close> c-cedilla, \<open>252\<close> u-diaeresis, \<open>305\<close> dotless i, \<open>351\<close> s-cedilla).
\<close>

type_synonym pystr = "nat list"

definition ascii :: "string \<Rightarrow> pystr" where
  "ascii s = map of_char s"

text \<open>
  The values that reach the builders: what \<open>json.loads\<close> returns and what the
  function-call arguments hold.  A \<open>dict\<close> keeps insertion order, so it is an association
  list; a tuple is kept because \<open>_build_where_simple\<close> tests for it.  A float is only
  ever tested for truth and for \<open>isinstance\<close>, never computed with.
\<close>

datatype pyval =
    PNone
  | PBool bool
  | PInt int
  | PFloat real
  | PStr pystr
  | PList "pyval list"
  | PTuple "pyval list"
  | PDict "(pystr \<times> pyval) list"

text \<open>
  The exceptions of the SQL layer.  \<open>ValueError\<close> carries the message the source gives it;
  \<open>KeyError\<close> the missing key; \<open>TypeError\<close> and \<open>AttributeError\<close> are raised by the
  interpreter; \<open>DatabaseError\<close> stands for \<open>psycopg2.Error\<close> with the driver's message.
\<close>

datatype exn =
    ValueError pystr
  | KeyError pystr
  | TypeError
  | AttributeError
  | JSONDecodeError
  | DatabaseError pystr

text \<open>
  \<open>psycopg2.sql\<close> objects: a statement is a tree of SQL text, quoted identifiers,
  placeholders and literals, rendered by the driver only when the statement is executed.
\<close>

datatype composable =
    SQL pystr
  | Identifier pystr
  | Placeholder
  | Literal_sql pyval
  | Composed "composable list"

text \<open>
  What the source takes from outside the repository is a parameter of the model:
  \<open>json.loads\<close>, the upper-case mapping of \<open>str.upper\<close> beyond ASCII, \<open>str()\<close> and
  \<open>repr()\<close> of a value, the driver's rendering of a literal, and the database's answer
  to \<open>cursor.execute\<close> followed by \<open>fetchall\<close>.
\<close>

record env =
  json_loads :: "pystr \<Rightarrow> exn + pyval"
  upper_nonascii :: "nat \<Rightarrow> pystr"
  py_str :: "pyval \<Rightarrow> pystr"
  py_repr :: "pyval \<Rightarrow> pystr"
  adapt :: "pyval \<Rightarrow> pystr"
  execute :: "composable \<Rightarrow> pyval list \<Rightarrow> exn + pyval list"

definition exn_bind :: "exn + 'a \<Rightarrow> ('a \<Rightarrow> exn + 'b) \<Rightarrow> exn + 'b" where
  "exn_bind r f = (case r of Inl e \<Rightarrow> Inl e | Inr x \<Rightarrow> f x)"

text \<open>Truth value of an object, as \<open>if x:\<close>, \<open>not x\<close> and \<open>bool(x)\<close> take it.\<close>

fun truthy :: "pyval \<Rightarrow> bool" where
  "truthy PNone = False"
| "truthy (PBool b) = b"
| "truthy (PInt n) = (n \<noteq> 0)"
| "truthy (PFloat r) = (r \<noteq> 0)"
| "truthy (PStr s) = (s \<noteq> [])"
| "truthy (PList xs) = (xs \<noteq> [])"
| "truthy (PTuple xs) = (xs \<noteq> [])"
| "truthy (PDict d) = (d \<noteq> [])"

text \<open>\<open>{x}\<close> in an f-string: a \<open>str\<close> is inserted as it is, any other value through \<open>str()\<close>.\<close>

definition fmt :: "env \<Rightarrow> pyval \<Rightarrow> pystr" where
  "fmt env v = (case v of PStr s \<Rightarrow> s | _ \<Rightarrow> py_str env v)"

text \<open>\<open>isinstance(x, dict)\<close>, giving the entries.\<close>

fun dict_items :: "pyval \<Rightarrow> (pystr \<times> pyval) list option" where
  "dict_items (PDict d) = Some d"
| "dict_items _ = None"

text \<open>\<open>d.get(key, default)\<close>, \<open>data.get(key, default)\<close> and \<open>data[key]\<close>.\<close>

definition dict_get :: "(pystr \<times> pyval) list \<Rightarrow> pystr \<Rightarrow> pyval \<Rightarrow> pyval" where
  "dict_get d key dflt = (case map_of d key of None \<Rightarrow> dflt | Some v \<Rightarrow> v)"

definition py_get :: "pyval \<Rightarrow> pystr \<Rightarrow> pyval \<Rightarrow> exn + pyval" where
  "py_get data key dflt =
     (case dict_items data of Some d \<Rightarrow> Inr (dict_get d key dflt) | None \<Rightarrow> Inl AttributeError)"

definition py_getitem :: "pyval \<Rightarrow> pystr \<Rightarrow> exn + pyval" where
  "py_getitem data key =
     (case dict_items data of
        Some d \<Rightarrow> (case map_of d key of None \<Rightarrow> Inl (KeyError key) | Some v \<Rightarrow> Inr v)
      | None \<Rightarrow> Inl TypeError)"

section \<open>Helpers of the SQL layer\<close>

subsection \<open>The identifier check\<close>

text \<open>
  \<open>_IDENTIFIER_RE = re.compile(r"^[A-Za-z_][A-Za-z0-9_]*$")\<close>, used through \<open>match\<close>.
  The classes are ranges of code points.  Python's \<open>$\<close> (without \<open>MULTILINE\<close>) holds at the
  end of the string and also just before a newline that ends the string.
\<close>

definition ident_start :: "nat \<Rightarrow> bool" where
  "ident_start c \<longleftrightarrow> (65 \<le> c \<and> c \<le> 90) \<or> (97 \<le> c \<and> c \<le> 122) \<or> c = 95"

definition ident_char :: "nat \<Rightarrow> bool" where
  "ident_char c \<longleftrightarrow> ident_start c \<or> (48 \<le> c \<and> c \<le> 57)"

definition at_dollar :: "pystr \<Rightarrow> bool" where
  "at_dollar rest \<longleftrightarrow> rest = [] \<or> rest = [10]"

definition IDENTIFIER_RE_match :: "pystr \<Rightarrow> bool" where
  "IDENTIFIER_RE_match s =
     (case s of [] \<Rightarrow> False | c # cs \<Rightarrow> ident_start c \<and> at_dollar (dropWhile ident_char cs))"

text \<open>
  The identifier of the specification: a letter or underscore followed by letters,
  digits and underscores, and nothing else.
\<close>

definition spec_identifier :: "pystr \<Rightarrow> bool" where
  "spec_identifier s =
     (case s of [] \<Rightarrow> False | c # cs \<Rightarrow> ident_start c \<and> list_all ident_char cs)"

definition invalid_name :: "env \<Rightarrow> pyval \<Rightarrow> exn" where
  "invalid_name env name =
     ValueError (ascii ''Ge'' @ [231] @ ascii ''ersiz isim: '' @ fmt env name)"

definition ident :: "env \<Rightarrow> pyval \<Rightarrow> exn + composable" where
  "ident env name =
     (case name of
        PStr s \<Rightarrow> if \<not> IDENTIFIER_RE_match s then Inl (invalid_name env name)
                  else Inr (Identifier s)
      | _ \<Rightarrow> Inl (invalid_name env name))"

subsection \<open>Decoding the content\<close>

definition content_empty :: exn where
  "content_empty = ValueError (ascii ''content bo'' @ [351] @ ascii ''. JSON string bekleniyor.'')"

definition content_not_object :: exn where
  "content_not_object =
     ValueError (ascii ''content bir JSON obje olmal'' @ [305] @ ascii ''.'')"

text \<open>
  \<open>_parse\<close>: \<open>None\<close> and the empty string are refused; a \<open>dict\<close> or a \<open>list\<close> is returned
  as it is; anything else goes to \<open>json.loads\<close>, which raises \<open>TypeError\<close> on a value that
  is not text.
\<close>

definition parse :: "env \<Rightarrow> pyval \<Rightarrow> exn + pyval" where
  "parse env content =
     (if content = PNone \<or> content = PStr [] then Inl content_empty
      else case content of
          PDict d \<Rightarrow> Inr content
        | PList xs \<Rightarrow> Inr content
        | PStr s \<Rightarrow>
            exn_bind (json_loads env s) (\<lambda>data.
              case dict_items data of Some d \<Rightarrow> Inr data | None \<Rightarrow> Inl content_not_object)
        | _ \<Rightarrow> Inl TypeError)"

subsection \<open>Composing statements\<close>

text \<open>\<open>SQL.join\<close> puts the separator between the items; \<open>+\<close> flattens one level.\<close>

fun intersperse :: "'a \<Rightarrow> 'a list \<Rightarrow> 'a list" where
  "intersperse sep [] = []"
| "intersperse sep [x] = [x]"
| "intersperse sep (x # y # ys) = x # sep # intersperse sep (y # ys)"

definition sql_join :: "composable \<Rightarrow> composable list \<Rightarrow> composable" where
  "sql_join sep xs = Composed (intersperse sep xs)"

definition sql_add :: "composable \<Rightarrow> composable \<Rightarrow> composable" where
  "sql_add x y =
     (case x of
        Composed xs \<Rightarrow> (case y of Composed ys \<Rightarrow> Composed (xs @ ys) | _ \<Rightarrow> Composed (xs @ [y]))
      | _ \<Rightarrow> (case y of Composed ys \<Rightarrow> Composed (x # ys) | _ \<Rightarrow> Composed [x, y]))"

text \<open>The number of placeholders in a statement, and whether it holds a literal.\<close>

fun placeholders :: "composable \<Rightarrow> nat" where
  "placeholders Placeholder = 1"
| "placeholders (Composed xs) = sum_list (map placeholders xs)"
| "placeholders _ = 0"

fun has_literal :: "composable \<Rightarrow> bool" where
  "has_literal (Literal_sql v) = True"
| "has_literal (Composed xs) = list_ex has_literal xs"
| "has_literal _ = False"

text \<open>
  The text the driver sends: SQL text as it is, an identifier in double quotes with
  embedded quotes doubled, a placeholder as \<open>%s\<close>, a literal as the driver adapts it.
\<close>

fun as_string :: "env \<Rightarrow> composable \<Rightarrow> pystr" where
  "as_string env (SQL s) = s"
| "as_string env (Identifier s) = [34] @ concat (map (\<lambda>c. if c = 34 then [34, 34] else [c]) s) @ [34]"
| "as_string env Placeholder = ascii ''%s''"
| "as_string env (Literal_sql v) = adapt env v"
| "as_string env (Composed xs) = concat (map (as_string env) xs)"

subsection \<open>The predicate builder\<close>

text \<open>One entry of the map, once its key is an identifier: the clause and its parameters.\<close>

fun seq_items :: "pyval \<Rightarrow> pyval list option" where
  "seq_items (PList vs) = Some vs"
| "seq_items (PTuple vs) = Some vs"
| "seq_items _ = None"

definition where_clause :: "composable \<Rightarrow> pyval \<Rightarrow> composable \<times> pyval list" where
  "where_clause col val =
     (if val = PNone then (Composed [col, SQL (ascii '' IS NULL'')], [])
      else case seq_items val of
          Some vs \<Rightarrow>
            if vs = [] then (SQL (ascii ''FALSE''), [])
            else (Composed [col, SQL (ascii '' IN (''),
                            sql_join (SQL (ascii '', '')) (map (\<lambda>_. Placeholder) vs),
                            SQL (ascii '')'')], vs)
        | None \<Rightarrow> (Composed [col, SQL (ascii '' = ''), Placeholder], [val]))"

fun where_loop :: "env \<Rightarrow> (pystr \<times> pyval) list \<Rightarrow> exn + (composable list \<times> pyval list)" where
  "where_loop env [] = Inr ([], [])"
| "where_loop env ((key, val) # rest) =
     exn_bind (ident env (PStr key)) (\<lambda>col.
     exn_bind (where_loop env rest) (\<lambda>(clauses, params).
       Inr (fst (where_clause col val) # clauses, snd (where_clause col val) @ params)))"

definition build_where_simple :: "env \<Rightarrow> pyval \<Rightarrow> exn + (composable \<times> pyval list)" where
  "build_where_simple env wh =
     (if \<not> truthy wh then Inr (SQL [], [])
      else case dict_items wh of
          Some items \<Rightarrow>
            exn_bind (where_loop env items) (\<lambda>(clauses, params).
              if clauses \<noteq> []
              then Inr (sql_add (SQL (ascii '' WHERE '')) (sql_join (SQL (ascii '' AND '')) clauses),
                        params)
              else Inr (SQL [], []))
        | None \<Rightarrow> Inl AttributeError)"

subsection \<open>The column type check\<close>

text \<open>
  \<open>_TYPE_RE = re.compile(r"^[A-Z0-9_(),\s]+$")\<close>, matched against
  \<open>column_type.upper()\<close>.  On a \<open>str\<close> pattern \<open>\s\<close> is Unicode white space, which
  includes the newline, so the match succeeds exactly when the string is not empty and
  every code point is in the class.  \<open>str.upper\<close> maps code point by code point; beyond
  ASCII the mapping is the environment's.
\<close>

definition py_isspace :: "nat \<Rightarrow> bool" where
  "py_isspace c \<longleftrightarrow>
     (9 \<le> c \<and> c \<le> 13) \<or> (28 \<le> c \<and> c \<le> 32) \<or> c = 133 \<or> c = 160 \<or> c = 5760 \<or>
     (8192 \<le> c \<and> c \<le> 8202) \<or> c = 8232 \<or> c = 8233 \<or> c = 8239 \<or> c = 8287 \<or> c = 12288"

definition type_char :: "nat \<Rightarrow> bool" where
  "type_char c \<longleftrightarrow>
     (65 \<le> c \<and> c \<le> 90) \<or> (48 \<le> c \<and> c \<le> 57) \<or> c = 95 \<or> c = 40 \<or> c = 41 \<or> c = 44 \<or>
     py_isspace c"

definition TYPE_RE_match :: "pystr \<Rightarrow> bool" where
  "TYPE_RE_match s \<longleftrightarrow> s \<noteq> [] \<and> list_all type_char s"

definition upper_char :: "env \<Rightarrow> nat \<Rightarrow> pystr" where
  "upper_char env c =
     (if 97 \<le> c \<and> c \<le> 122 then [c - 32]
      else if c < 128 then [c]
      else upper_nonascii env c)"

definition upper :: "env \<Rightarrow> pystr \<Rightarrow> pystr" where
  "upper env s = concat (map (upper_char env) s)"

definition invalid_type :: "env \<Rightarrow> pyval \<Rightarrow> exn" where
  "invalid_type env column_type =
     ValueError (ascii ''Ge'' @ [231] @ ascii ''ersiz/izin verilmeyen kolon tipi/k'' @ [305] @
                 ascii ''s'' @ [305] @ ascii ''t'' @ [305] @ ascii '': '' @ py_repr env column_type)"

text \<open>
  The test of the loop in \<open>create_sql_table\<close>: the fragment must be a \<open>str\<close> whose
  upper-cased copy matches; the fragment itself is what goes on.
\<close>

definition type_fragment :: "env \<Rightarrow> pyval \<Rightarrow> exn + pystr" where
  "type_fragment env column_type =
     (case column_type of
        PStr s \<Rightarrow> if \<not> TYPE_RE_match (upper env s) then Inl (invalid_type env column_type)
                  else Inr s
      | _ \<Rightarrow> Inl (invalid_type env column_type))"

section \<open>The statements of the seven operations\<close>

text \<open>
  Each operation of the source decodes its content, builds one statement and then
  executes it.  The first part, up to the \<open>with db_cursor()\<close> block, is the function
  \<open>..._query\<close>; it returns the statement and its parameters, or the exception raised on
  the way.
\<close>

definition dict_empty :: "pystr \<Rightarrow> exn" where
  "dict_empty field =
     ValueError ([39] @ field @ [39] @ ascii '' dict olmal'' @ [305] @ ascii '' ve bo'' @ [351] @
                 ascii '' olmamal'' @ [305] @ ascii ''.'')"

definition where_required :: exn where
  "where_required =
     ValueError (ascii ''G'' @ [252] @ ascii ''venlik i'' @ [231] @ ascii ''in WHERE zorunludur.'')"

fun column_defs :: "env \<Rightarrow> (pystr \<times> pyval) list \<Rightarrow> exn + composable list" where
  "column_defs env [] = Inr []"
| "column_defs env ((column_name, column_type) # rest) =
     exn_bind (type_fragment env column_type) (\<lambda>fragment.
     exn_bind (ident env (PStr column_name)) (\<lambda>col.
     exn_bind (column_defs env rest) (\<lambda>defs.
       Inr (Composed [col, SQL (ascii '' ''), SQL fragment] # defs))))"

definition create_query :: "env \<Rightarrow> pyval \<Rightarrow> exn + (pyval \<times> composable)" where
  "create_query env content =
     exn_bind (parse env content) (\<lambda>data.
     exn_bind (py_getitem data (ascii ''table'')) (\<lambda>table.
     exn_bind (py_getitem data (ascii ''columns'')) (\<lambda>columns.
     exn_bind (py_get data (ascii ''if_not_exists'') (PBool True)) (\<lambda>if_not_exists.
       case dict_items columns of
         Some cols \<Rightarrow>
           if cols = [] then Inl (dict_empty (ascii ''columns''))
           else
             exn_bind (column_defs env cols) (\<lambda>defs.
             exn_bind (ident env table) (\<lambda>tbl.
               Inr (table,
                    Composed [SQL (ascii ''CREATE TABLE ''),
                              (if truthy if_not_exists then SQL (ascii ''IF NOT EXISTS '')
                               else SQL []),
                              tbl,
                              SQL (ascii '' (''),
                              sql_join (SQL (ascii '', '')) defs,
                              SQL (ascii '')'')])))
       | None \<Rightarrow> Inl (dict_empty (ascii ''columns''))))))"

definition drop_query :: "env \<Rightarrow> pyval \<Rightarrow> exn + (pyval \<times> bool \<times> composable)" where
  "drop_query env content =
     exn_bind (parse env content) (\<lambda>data.
     exn_bind (py_getitem data (ascii ''table'')) (\<lambda>table.
     exn_bind (py_get data (ascii ''if_exists'') (PBool True)) (\<lambda>if_exists.
     exn_bind (py_get data (ascii ''cascade'') (PBool False)) (\<lambda>cascade.
     exn_bind (ident env table) (\<lambda>tbl.
       Inr (table, truthy if_exists,
            Composed [SQL (ascii ''DROP TABLE ''),
                      (if truthy if_exists then SQL (ascii ''IF EXISTS '') else SQL []),
                      tbl,
                      (if truthy cascade then SQL (ascii '' CASCADE'') else SQL [])]))))))"

fun ident_all :: "env \<Rightarrow> pyval list \<Rightarrow> exn + composable list" where
  "ident_all env [] = Inr []"
| "ident_all env (c # cs) =
     exn_bind (ident env c) (\<lambda>i.
     exn_bind (ident_all env cs) (\<lambda>rest. Inr (i # rest)))"

definition insert_query :: "env \<Rightarrow> pyval \<Rightarrow> exn + (composable \<times> pyval list)" where
  "insert_query env content =
     exn_bind (parse env content) (\<lambda>data.
     exn_bind (py_getitem data (ascii ''table'')) (\<lambda>table.
     exn_bind (py_getitem data (ascii ''values'')) (\<lambda>vals.
       case dict_items vals of
         Some d \<Rightarrow>
           if d = [] then Inl (dict_empty (ascii ''values''))
           else
             exn_bind (ident_all env (map (PStr \<circ> fst) d)) (\<lambda>column_identifiers.
             exn_bind (ident env table) (\<lambda>tbl.
               Inr (Composed [SQL (ascii ''INSERT INTO ''),
                              tbl,
                              SQL (ascii '' (''),
                              sql_join (SQL (ascii '', '')) column_identifiers,
                              SQL (ascii '') VALUES (''),
                              sql_join (SQL (ascii '', ''))
                                (map (\<lambda>_. Placeholder) column_identifiers),
                              SQL (ascii '') RETURNING *'')],
                    map snd d)))
       | None \<Rightarrow> Inl (dict_empty (ascii ''values'')))))"

text \<open>
  Iterating a value, as the generator over \<open>columns\<close> does: a string yields its
  characters, a \<open>dict\<close> its keys.
\<close>

definition py_iter :: "pyval \<Rightarrow> exn + pyval list" where
  "py_iter v =
     (case v of
        PList xs \<Rightarrow> Inr xs
      | PTuple xs \<Rightarrow> Inr xs
      | PStr s \<Rightarrow> Inr (map (\<lambda>c. PStr [c]) s)
      | PDict d \<Rightarrow> Inr (map (PStr \<circ> fst) d)
      | _ \<Rightarrow> Inl TypeError)"

text \<open>\<open>isinstance(limit, int) and limit > 0\<close>; a \<open>bool\<close> is an \<open>int\<close> in Python.\<close>

definition limit_applies :: "pyval \<Rightarrow> bool" where
  "limit_applies limit = (case limit of PInt n \<Rightarrow> n > 0 | PBool b \<Rightarrow> b | _ \<Rightarrow> False)"

definition add_limit :: "composable \<Rightarrow> pyval \<Rightarrow> composable" where
  "add_limit query limit =
     (if limit_applies limit
      then sql_add query (Composed [SQL (ascii '' LIMIT ''), Literal_sql limit])
      else query)"

definition read_query :: "env \<Rightarrow> pyval \<Rightarrow> exn + (composable \<times> pyval list)" where
  "read_query env content =
     exn_bind (parse env content) (\<lambda>data.
     exn_bind (py_getitem data (ascii ''table'')) (\<lambda>table.
     exn_bind (py_get data (ascii ''columns'') PNone) (\<lambda>columns.
     exn_bind (if truthy columns
               then exn_bind (py_iter columns) (\<lambda>cs.
                    exn_bind (ident_all env cs) (\<lambda>ids. Inr (sql_join (SQL (ascii '', '')) ids)))
               else Inr (SQL (ascii ''*''))) (\<lambda>col_sql.
     exn_bind (py_get data (ascii ''where'') (PDict [])) (\<lambda>wh.
     exn_bind (build_where_simple env wh) (\<lambda>(where_sql, params).
     exn_bind (ident env table) (\<lambda>tbl.
     exn_bind (py_get data (ascii ''limit'') PNone) (\<lambda>limit.
       Inr (add_limit
              (sql_add (Composed [SQL (ascii ''SELECT ''), col_sql, SQL (ascii '' FROM ''), tbl])
                       where_sql)
              limit,
            params)))))))))"

definition delete_query :: "env \<Rightarrow> pyval \<Rightarrow> exn + (composable \<times> pyval list)" where
  "delete_query env content =
     exn_bind (parse env content) (\<lambda>data.
     exn_bind (py_getitem data (ascii ''table'')) (\<lambda>table.
     exn_bind (py_get data (ascii ''where'') PNone) (\<lambda>wh.
       if \<not> truthy wh then Inl where_required
       else
         exn_bind (build_where_simple env wh) (\<lambda>(where_sql, params).
         exn_bind (ident env table) (\<lambda>tbl.
           Inr (sql_add (sql_add (Composed [SQL (ascii ''DELETE FROM ''), tbl]) where_sql)
                        (SQL (ascii '' RETURNING *'')),
                params))))))"

fun set_clauses :: "env \<Rightarrow> (pystr \<times> pyval) list \<Rightarrow> exn + (composable list \<times> pyval list)" where
  "set_clauses env [] = Inr ([], [])"
| "set_clauses env ((col_name, v) # rest) =
     exn_bind (ident env (PStr col_name)) (\<lambda>col.
     exn_bind (set_clauses env rest) (\<lambda>(clauses, params).
       Inr (Composed [col, SQL (ascii '' = ''), Placeholder] # clauses, v # params)))"

definition update_query :: "env \<Rightarrow> pyval \<Rightarrow> exn + (composable \<times> pyval list)" where
  "update_query env content =
     exn_bind (parse env content) (\<lambda>data.
     exn_bind (py_getitem data (ascii ''table'')) (\<lambda>table.
     exn_bind (py_get data (ascii ''set'') PNone) (\<lambda>set_map.
     exn_bind (py_get data (ascii ''where'') PNone) (\<lambda>wh.
       case dict_items set_map of
         Some sm \<Rightarrow>
           if sm = [] then Inl (dict_empty (ascii ''set''))
           else if \<not> truthy wh then Inl where_required
           else
             exn_bind (set_clauses env sm) (\<lambda>(clauses, params).
             exn_bind (build_where_simple env wh) (\<lambda>(where_sql, where_params).
             exn_bind (ident env table) (\<lambda>tbl.
               Inr (sql_add
                      (sql_add
                         (sql_add (Composed [SQL (ascii ''UPDATE ''), tbl, SQL (ascii '' SET '')])
                                  (sql_join (SQL (ascii '', '')) clauses))
                         where_sql)
                      (SQL (ascii '' RETURNING *'')),
                    params @ where_params))))
       | None \<Rightarrow> Inl (dict_empty (ascii ''set''))))))"

text \<open>
  \<open>ch in pattern\<close> for a one-character string \<open>ch\<close>: a substring test on a string, a
  membership test on a sequence, a key test on a \<open>dict\<close>, and a \<open>TypeError\<close> otherwise.
\<close>

definition py_contains :: "pyval \<Rightarrow> nat \<Rightarrow> exn + bool" where
  "py_contains v ch =
     (case v of
        PStr s \<Rightarrow> Inr (ch \<in> set s)
      | PList xs \<Rightarrow> Inr (PStr [ch] \<in> set xs)
      | PTuple xs \<Rightarrow> Inr (PStr [ch] \<in> set xs)
      | PDict d \<Rightarrow> Inr ([ch] \<in> set (map fst d))
      | _ \<Rightarrow> Inl TypeError)"

text \<open>The parameter bound for \<open>ILIKE\<close>; \<open>37\<close> is the percent sign and \<open>95\<close> the underscore.\<close>

definition like_pattern :: "env \<Rightarrow> pyval \<Rightarrow> exn + pyval" where
  "like_pattern env pattern =
     exn_bind (py_contains pattern 37) (\<lambda>has_percent.
     exn_bind (if has_percent then Inr True else py_contains pattern 95) (\<lambda>has_wildcard.
       Inr (if has_wildcard then pattern else PStr ([37] @ fmt env pattern @ [37]))))"

definition list_tables_query :: "env \<Rightarrow> pyval \<Rightarrow> exn + (composable \<times> pyval list)" where
  "list_tables_query env content =
     exn_bind (parse env content) (\<lambda>data.
     exn_bind (py_get data (ascii ''schema'') PNone) (\<lambda>schema.
     exn_bind (py_get data (ascii ''include_views'') (PBool False)) (\<lambda>include_views.
     exn_bind (py_get data (ascii ''pattern'') PNone) (\<lambda>pattern.
     exn_bind (py_get data (ascii ''limit'') (PInt 200)) (\<lambda>limit.
     exn_bind (if truthy pattern
               then exn_bind (like_pattern env pattern) (\<lambda>pat.
                      Inr ([Composed [SQL (ascii ''table_name ILIKE ''), Placeholder]], [pat]))
               else Inr ([], [])) (\<lambda>(pattern_sql, pattern_params).
       Inr (add_limit
              (sql_add
                 (sql_add
                    (SQL (ascii ''SELECT table_schema, table_name, table_type FROM information_schema.tables WHERE ''))
                    (sql_join (SQL (ascii '' AND ''))
                       ([SQL (ascii ''1=1'')] @
                        (if \<not> truthy include_views
                         then [SQL (ascii ''table_type = '' @ [39] @ ascii ''BASE TABLE'' @ [39])]
                         else []) @
                        (if truthy schema
                         then [Composed [SQL (ascii ''table_schema = ''), Placeholder]]
                         else []) @
                        pattern_sql)))
                 (SQL (ascii '' ORDER BY table_schema, table_name'')))
              limit,
            (if truthy schema then [schema] else []) @ pattern_params)))))))"

section \<open>Execution and dispatch\<close>

text \<open>
  \<open>db_cursor\<close>: the statement is executed and its rows fetched; the transaction is
  committed on a normal return and rolled back on \<open>psycopg2.Error\<close>, which is raised
  again.  The events record what reached the database.
\<close>

datatype db_event = Execute composable "pyval list" | Commit | Rollback

type_synonym outcome = "(exn + pyval) \<times> db_event list"

definition is_db_error :: "exn \<Rightarrow> bool" where
  "is_db_error e = (case e of DatabaseError m \<Rightarrow> True | _ \<Rightarrow> False)"

definition db_cursor :: "env \<Rightarrow> composable \<Rightarrow> pyval list \<Rightarrow> (exn + pyval list) \<times> db_event list" where
  "db_cursor env query params =
     (case execute env query params of
        Inr rows \<Rightarrow> (Inr rows, [Execute query params, Commit])
      | Inl e \<Rightarrow> (Inl e, if is_db_error e then [Execute query params, Rollback]
                         else [Execute query params]))"

definition run :: "env \<Rightarrow> exn + (composable \<times> pyval list) \<Rightarrow> (pyval list \<Rightarrow> pyval) \<Rightarrow> outcome" where
  "run env built result =
     (case built of
        Inl e \<Rightarrow> (Inl e, [])
      | Inr (query, params) \<Rightarrow>
          (case db_cursor env query params of
             (Inl e, events) \<Rightarrow> (Inl e, events)
           | (Inr rows, events) \<Rightarrow> (Inr (result rows), events)))"

definition counted :: "string \<Rightarrow> string \<Rightarrow> pyval list \<Rightarrow> pyval" where
  "counted count_key rows_key rows =
     PDict [(ascii count_key, PInt (int (length rows))), (ascii rows_key, PList rows)]"

definition create_sql_table :: "env \<Rightarrow> pyval \<Rightarrow> outcome" where
  "create_sql_table env content =
     (case create_query env content of
        Inl e \<Rightarrow> (Inl e, [])
      | Inr (table, query) \<Rightarrow>
          run env (Inr (query, []))
            (\<lambda>rows. PStr (fmt env table @ ascii '' tablosu olu'' @ [351] @
                          ascii ''turuldu (ya da zaten vard'' @ [305] @ ascii '').'')))"

definition drop_sql_table :: "env \<Rightarrow> pyval \<Rightarrow> outcome" where
  "drop_sql_table env content =
     (case drop_query env content of
        Inl e \<Rightarrow> (Inl e, [])
      | Inr (table, if_exists, query) \<Rightarrow>
          run env (Inr (query, []))
            (\<lambda>rows. PStr (if if_exists then fmt env table @ ascii '' tablosu silindi.''
                          else fmt env table @ ascii '' tablosu drop komutu uyguland'' @ [305] @
                               ascii ''.'')))"

definition insert_sql_entry :: "env \<Rightarrow> pyval \<Rightarrow> outcome" where
  "insert_sql_entry env content = run env (insert_query env content) (counted ''inserted'' ''rows'')"

definition read_sql_entry :: "env \<Rightarrow> pyval \<Rightarrow> outcome" where
  "read_sql_entry env content = run env (read_query env content) (counted ''count'' ''rows'')"

definition delete_sql_entry :: "env \<Rightarrow> pyval \<Rightarrow> outcome" where
  "delete_sql_entry env content = run env (delete_query env content) (counted ''deleted'' ''rows'')"

definition update_sql_entry :: "env \<Rightarrow> pyval \<Rightarrow> outcome" where
  "update_sql_entry env content = run env (update_query env content) (counted ''updated'' ''rows'')"

definition list_tables :: "env \<Rightarrow> pyval \<Rightarrow> outcome" where
  "list_tables env content = run env (list_tables_query env content) (counted ''count'' ''tables'')"

text \<open>
  The result handed back to the language model: \<open>Tool_ok m None\<close> is
  \<open>{"ok": True, "message": m}\<close>, \<open>Tool_ok m (Some d)\<close> adds \<open>"data": d\<close>, and
  \<open>Tool_error t\<close> is \<open>{"ok": False, "error": t}\<close>, where the text is either given by the
  source or is \<open>str(exc)\<close> of the exception caught.
\<close>

datatype error_text = Text pystr | Str_exc exn

datatype tool_result = Tool_ok pyval "pyval option" | Tool_error error_text

text \<open>
  The \<open>try\<close> block of \<open>handle_user_message\<close> with its \<open>except Exception as exc\<close>;
  \<open>name\<close> and \<open>content\<close> are the values the lines before the block have computed.
\<close>

definition caught :: "outcome \<Rightarrow> (pyval \<Rightarrow> tool_result) \<Rightarrow> tool_result \<times> db_event list" where
  "caught r wrap =
     (case r of (Inl exc, events) \<Rightarrow> (Tool_error (Str_exc exc), events)
              | (Inr result, events) \<Rightarrow> (wrap result, events))"

definition tool_dispatch :: "env \<Rightarrow> pystr \<Rightarrow> pyval \<Rightarrow> tool_result \<times> db_event list" where
  "tool_dispatch env name content =
     (if name = ascii ''create_sql_table'' then
        caught (create_sql_table env content)
          (\<lambda>result. Tool_ok (PStr (ascii ''Tablo olu'' @ [351] @ ascii ''turma sonucu: '' @
                                   fmt env result)) None)
      else if name = ascii ''drop_sql_table'' then
        caught (drop_sql_table env content) (\<lambda>result. Tool_ok result None)
      else if name = ascii ''insert_sql_entry'' then
        caught (insert_sql_entry env content)
          (\<lambda>created. Tool_ok (PStr (ascii ''Olu'' @ [351] @ ascii ''turuldu'')) (Some created))
      else if name = ascii ''read_sql_entry'' then
        caught (read_sql_entry env content)
          (\<lambda>read. Tool_ok (PStr (ascii ''Bilgiler'')) (Some read))
      else if name = ascii ''delete_sql_entry'' then
        caught (delete_sql_entry env content)
          (\<lambda>deleted. Tool_ok (PStr (ascii ''Silindi'')) (Some deleted))
      else if name = ascii ''update_sql_entry'' then
        caught (update_sql_entry env content)
          (\<lambda>updated. Tool_ok (PStr (ascii ''G'' @ [252] @ ascii ''ncellendi'')) (Some updated))
      else if name = ascii ''list_tables'' then
        caught (list_tables env content)
          (\<lambda>lst. Tool_ok (PStr (ascii ''Tablolar'')) (Some lst))
      else (Tool_error (Text (ascii ''Bilinmeyen tool: '' @ name)), []))"

text \<open>
  The function call the language model returns: its name is a string or \<open>None\<close>, its
  arguments a \<open>dict\<close> or \<open>None\<close>.  \<open>str.strip()\<close> removes the white space at both ends.
\<close>

record function_call =
  call_name :: "pystr option"
  call_args :: "(pystr \<times> pyval) list option"

definition strip :: "pystr \<Rightarrow> pystr" where
  "strip s = rev (dropWhile py_isspace (rev (dropWhile py_isspace s)))"

text \<open>
  \<open>handle_user_message\<close> from the function call to the tool result.  Before the \<open>try\<close>
  block, \<open>args\<close> is the arguments if they are a \<open>dict\<close> and \<open>dict(function_call.args)\<close>
  otherwise, which raises \<open>TypeError\<close> on \<open>None\<close>; \<open>name\<close> is
  \<open>(function_call.name or "").strip()\<close>; the content is \<open>args.get("content")\<close>.
\<close>

definition handle_function_call :: "env \<Rightarrow> function_call \<Rightarrow> exn + (tool_result \<times> db_event list)" where
  "handle_function_call env call =
     exn_bind (case call_args call of Some d \<Rightarrow> Inr d | None \<Rightarrow> Inl TypeError) (\<lambda>args.
       Inr (tool_dispatch env
              (strip (case call_name call of Some n \<Rightarrow> n | None \<Rightarrow> []))
              (dict_get args (ascii ''content'') PNone)))"

section \<open>Notions of the specification\<close>

text \<open>
  The shape of a value of a predicate map: null, a sequence of a given length, or a
  scalar; and the values an entry binds.
\<close>

datatype shape = Null_shape | Seq_shape nat | Scalar_shape

definition shape_of :: "pyval \<Rightarrow> shape" where
  "shape_of v =
     (if v = PNone then Null_shape
      else case seq_items v of Some vs \<Rightarrow> Seq_shape (length vs) | None \<Rightarrow> Scalar_shape)"

definition bound_values :: "pyval \<Rightarrow> pyval list" where
  "bound_values v =
     (if v = PNone then [] else case seq_items v of Some vs \<Rightarrow> vs | None \<Rightarrow> [v])"

text \<open>Content that denotes a JSON object: an object already decoded, or text that decodes to one.\<close>

definition denotes_object :: "env \<Rightarrow> pyval \<Rightarrow> bool" where
  "denotes_object env content =
     (case content of
        PDict d \<Rightarrow> True
      | PStr s \<Rightarrow>
          s \<noteq> [] \<and>
          (case json_loads env s of
             Inr data \<Rightarrow> (case dict_items data of Some d \<Rightarrow> True | None \<Rightarrow> False)
           | Inl e \<Rightarrow> False)
      | _ \<Rightarrow> False)"

text \<open>The seven operations by name, as the dispatcher's chain of comparisons lists them.\<close>

definition operations :: "(pystr \<times> (env \<Rightarrow> pyval \<Rightarrow> outcome)) list" where
  "operations =
     [(ascii ''create_sql_table'', create_sql_table),
      (ascii ''drop_sql_table'', drop_sql_table),
      (ascii ''insert_sql_entry'', insert_sql_entry),
      (ascii ''read_sql_entry'', read_sql_entry),
      (ascii ''delete_sql_entry'', delete_sql_entry),
      (ascii ''update_sql_entry'', update_sql_entry),
      (ascii ''list_tables'', list_tables)]"

text \<open>
  An environment for the examples: the decoder knows two texts, nothing is upper-cased
  beyond ASCII, and the database answers every statement with no rows.
\<close>

definition example_env :: env where
  "example_env =
     \<lparr>json_loads = (\<lambda>s. if s = ascii ''{}'' then Inr (PDict [])
                        else if s = ascii ''[1]'' then Inr (PList [PInt 1])
                        else Inl JSONDecodeError),
      upper_nonascii = (\<lambda>c. [c]),
      py_str = (\<lambda>v. ascii ''<str>''),
      py_repr = (\<lambda>v. ascii ''<repr>''),
      adapt = (\<lambda>v. ascii ''<literal>''),
      execute = (\<lambda>query params. Inr [])\<rparr>"

section \<open>Basic facts\<close>

lemma exn_bind_Inl: "exn_bind (Inl e) f = Inl e"
  by (simp add: exn_bind_def)

lemma exn_bind_Inr: "exn_bind (Inr x) f = f x"
  by (simp add: exn_bind_def)

lemma ident_str: "ident env (PStr s) = (if IDENTIFIER_RE_match s then Inr (Identifier s) else Inl (invalid_name env (PStr s)))"
  by (simp add: ident_def)

lemma where_loop_closed:
  "where_loop env items =
     (case find (\<lambda>(k, v). \<not> IDENTIFIER_RE_match k) items of
        Some (k, v) \<Rightarrow> Inl (invalid_name env (PStr k))
      | None \<Rightarrow> Inr (map (\<lambda>(k, v). fst (where_clause (Identifier k) v)) items,
                     concat (map (\<lambda>(k, v). snd (where_clause (Identifier k) v)) items)))"
proof (induction items)
  case Nil
  show ?case by simp
next
  case (Cons item items)
  obtain k v where item: "item = (k, v)" by (cases item)
  show ?case
  proof (cases "IDENTIFIER_RE_match k")
    case False
    then show ?thesis by (simp add: item ident_str exn_bind_Inl)
  next
    case True
    then show ?thesis
      by (simp add: item ident_str exn_bind_Inr Cons.IH exn_bind_Inl split: option.split)
  qed
qed

lemma find_None_list_all: "find P xs = None \<longleftrightarrow> list_all (\<lambda>x. \<not> P x) xs"
  by (induction xs) auto

lemma where_loop_valid:
  assumes "list_all (\<lambda>(k, v). IDENTIFIER_RE_match k) items"
  shows "where_loop env items =
           Inr (map (\<lambda>(k, v). fst (where_clause (Identifier k) v)) items,
                concat (map (\<lambda>(k, v). snd (where_clause (Identifier k) v)) items))"
proof -
  have "find (\<lambda>(k, v). \<not> IDENTIFIER_RE_match k) items = None"
    using assms by (induction items) auto
  then show ?thesis by (simp add: where_loop_closed)
qed

lemma where_loop_Inr_valid:
  "where_loop env items = Inr r \<Longrightarrow> list_all (\<lambda>(k, v). IDENTIFIER_RE_match k) items"
  by (induction items arbitrary: r) (auto simp: ident_str exn_bind_def split: if_splits sum.splits)

lemma sql_add_SQL_Composed: "sql_add (SQL s) (Composed xs) = Composed (SQL s # xs)"
  by (simp add: sql_add_def)

lemma placeholders_intersperse:
  "placeholders sep = 0 \<Longrightarrow> sum_list (map placeholders (intersperse sep xs)) = sum_list (map placeholders xs)"
  by (induction sep xs rule: intersperse.induct) auto

lemma sum_list_const_one: "(\<Sum>x\<leftarrow>xs. Suc 0) = length xs"
  by (induction xs) auto

lemma where_clause_count:
  "placeholders col = 0 \<Longrightarrow> placeholders (fst (where_clause col v)) = length (snd (where_clause col v))"
  by (auto simp: where_clause_def sql_join_def placeholders_intersperse comp_def sum_list_const_one
      split: option.splits)


lemma map_const_replicate: "map (\<lambda>_. x) vs = replicate (length vs) x"
  by (induction vs) auto

lemma build_where_simple_dict:
  "build_where_simple env (PDict items) =
     (if items = [] then Inr (SQL [], [])
      else case where_loop env items of
             Inl e \<Rightarrow> Inl e
           | Inr (clauses, params) \<Rightarrow>
               Inr (Composed (SQL (ascii '' WHERE '') # intersperse (SQL (ascii '' AND '')) clauses),
                    params))"
proof (cases items)
  case Nil
  then show ?thesis by (simp add: build_where_simple_def)
next
  case (Cons item rest)
  have nonempty: "where_loop env items = Inr (clauses, params) \<Longrightarrow> clauses \<noteq> []" for clauses params
    using Cons by (cases item) (auto simp: exn_bind_def split: sum.splits)
  show ?thesis
  proof (cases "where_loop env items")
    case (Inl e)
    then show ?thesis using Cons by (simp add: build_where_simple_def exn_bind_def)
  next
    case (Inr r)
    obtain clauses params where r: "r = (clauses, params)" by (cases r)
    from Inr r nonempty have "clauses \<noteq> []" by simp
    then show ?thesis
      using Cons Inr r
      by (simp add: build_where_simple_def exn_bind_def sql_join_def sql_add_def)
  qed
qed

section \<open>The predicate builder, case by case\<close>

text \<open>
  C5.  The predicate builder maps the empty map to the empty fragment with no
  parameters.  An entry whose value is null becomes \<open>col IS NULL\<close> with no parameter; a
  non-empty list or tuple becomes \<open>col IN (...)\<close> with one placeholder per element,
  separated by commas, and its elements as parameters; an empty list or tuple becomes
  the clause \<open>FALSE\<close> with no parameter; any other value becomes \<open>col = placeholder\<close> with
  the value as parameter.  For a non-empty map whose keys are identifiers the fragment
  is \<open>WHERE\<close> followed by the clauses of the entries in order, joined with \<open>AND\<close>, and
  the parameters are those of the entries in order.  (The specification writes the
  placeholder as a question mark; the driver renders it as \<open>%s\<close> and the column as a
  quoted identifier.)
\<close>

theorem predicate_builder_cases:
  "build_where_simple env (PDict []) = Inr (SQL [], [])
   \<and> where_clause col PNone = (Composed [col, SQL (ascii '' IS NULL'')], [])
   \<and> (vs \<noteq> [] \<longrightarrow>
        where_clause col (PList vs) =
          (Composed [col, SQL (ascii '' IN (''),
                     Composed (intersperse (SQL (ascii '', '')) (replicate (length vs) Placeholder)),
                     SQL (ascii '')'')], vs)
        \<and> where_clause col (PTuple vs) = where_clause col (PList vs))
   \<and> where_clause col (PList []) = (SQL (ascii ''FALSE''), [])
   \<and> where_clause col (PTuple []) = (SQL (ascii ''FALSE''), [])
   \<and> (v \<noteq> PNone \<and> seq_items v = None \<longrightarrow>
        where_clause col v = (Composed [col, SQL (ascii '' = ''), Placeholder], [v]))
   \<and> (items \<noteq> [] \<and> list_all (\<lambda>(k, v). IDENTIFIER_RE_match k) items \<longrightarrow>
        build_where_simple env (PDict items) =
          Inr (Composed (SQL (ascii '' WHERE '') #
                         intersperse (SQL (ascii '' AND ''))
                           (map (\<lambda>(k, v). fst (where_clause (Identifier k) v)) items)),
               concat (map (\<lambda>(k, v). snd (where_clause (Identifier k) v)) items)))"
proof -
  have empty: "build_where_simple env (PDict []) = Inr (SQL [], [])"
    by (simp add: build_where_simple_def)
  have null: "where_clause col PNone = (Composed [col, SQL (ascii '' IS NULL'')], [])"
    by (simp add: where_clause_def)
  have seqs: "vs \<noteq> [] \<longrightarrow>
        where_clause col (PList vs) =
          (Composed [col, SQL (ascii '' IN (''),
                     Composed (intersperse (SQL (ascii '', '')) (replicate (length vs) Placeholder)),
                     SQL (ascii '')'')], vs)
        \<and> where_clause col (PTuple vs) = where_clause col (PList vs)"
    by (simp add: where_clause_def sql_join_def map_const_replicate)
  have none: "where_clause col (PList []) = (SQL (ascii ''FALSE''), [])"
    "where_clause col (PTuple []) = (SQL (ascii ''FALSE''), [])"
    by (simp_all add: where_clause_def)
  have scalar: "v \<noteq> PNone \<and> seq_items v = None \<longrightarrow>
        where_clause col v = (Composed [col, SQL (ascii '' = ''), Placeholder], [v])"
    by (simp add: where_clause_def)
  have whole: "items \<noteq> [] \<and> list_all (\<lambda>(k, v). IDENTIFIER_RE_match k) items \<longrightarrow>
        build_where_simple env (PDict items) =
          Inr (Composed (SQL (ascii '' WHERE '') #
                         intersperse (SQL (ascii '' AND ''))
                           (map (\<lambda>(k, v). fst (where_clause (Identifier k) v)) items)),
               concat (map (\<lambda>(k, v). snd (where_clause (Identifier k) v)) items))"
    by (simp add: build_where_simple_dict where_loop_valid)
  from empty null seqs none scalar whole show ?thesis by blast
qed

theorem predicate_builder_cases_witness:
  "build_where_simple example_env
     (PDict [(ascii ''a'', PNone), (ascii ''b'', PList [PInt 1, PInt 2]),
             (ascii ''c'', PList []), (ascii ''d'', PStr (ascii ''x''))]) =
   Inr (Composed
          [SQL (ascii '' WHERE ''),
           Composed [Identifier (ascii ''a''), SQL (ascii '' IS NULL'')],
           SQL (ascii '' AND ''),
           Composed [Identifier (ascii ''b''), SQL (ascii '' IN (''),
                     Composed [Placeholder, SQL (ascii '', ''), Placeholder], SQL (ascii '')'')],
           SQL (ascii '' AND ''),
           SQL (ascii ''FALSE''),
           SQL (ascii '' AND ''),
           Composed [Identifier (ascii ''d''), SQL (ascii '' = ''), Placeholder]],
        [PInt 1, PInt 2, PStr (ascii ''x'')])"
  using predicate_builder_cases [of example_env "Identifier (ascii ''b'')" "[PInt 1, PInt 2]"
      "PStr (ascii ''x'')"
      "[(ascii ''a'', PNone), (ascii ''b'', PList [PInt 1, PInt 2]),
        (ascii ''c'', PList []), (ascii ''d'', PStr (ascii ''x''))]"]
  by (simp add: where_clause_def sql_join_def IDENTIFIER_RE_match_def ident_start_def
      ident_char_def at_dollar_def ascii_def)


lemma dropWhile_single:
  assumes "\<not> P y"
  shows "dropWhile P xs = [y] \<longleftrightarrow> (\<exists>u. xs = u @ [y] \<and> list_all P u)"
proof
  assume h: "dropWhile P xs = [y]"
  have "xs = takeWhile P xs @ dropWhile P xs" by simp
  with h have "xs = takeWhile P xs @ [y]" by simp
  moreover have "list_all P (takeWhile P xs)"
    by (simp add: list_all_iff) (meson set_takeWhileD)
  ultimately show "\<exists>u. xs = u @ [y] \<and> list_all P u" by blast
next
  assume "\<exists>u. xs = u @ [y] \<and> list_all P u"
  then obtain u where "xs = u @ [y]" "list_all P u" by blast
  then show "dropWhile P xs = [y]"
    using assms by (simp add: list_all_iff dropWhile_append)
qed

lemma dropWhile_Nil_all: "dropWhile P xs = [] \<longleftrightarrow> list_all P xs"
  by (simp add: list_all_iff)

lemma IDENTIFIER_RE_match_iff:
  "IDENTIFIER_RE_match s \<longleftrightarrow> spec_identifier s \<or> (\<exists>t. s = t @ [10] \<and> spec_identifier t)"
proof (cases s)
  case Nil
  then show ?thesis by (simp add: IDENTIFIER_RE_match_def spec_identifier_def)
next
  case (Cons c cs)
  have not10: "\<not> ident_char 10" by (simp add: ident_char_def ident_start_def)
  have "(\<exists>t. c # cs = t @ [10] \<and> spec_identifier t) \<longleftrightarrow>
        (ident_start c \<and> (\<exists>u. cs = u @ [10] \<and> list_all ident_char u))"
  proof
    assume "\<exists>t. c # cs = t @ [10] \<and> spec_identifier t"
    then obtain t where t: "c # cs = t @ [10]" "spec_identifier t" by blast
    from t(2) obtain c' u where tu: "t = c' # u" "ident_start c'" "list_all ident_char u"
      by (cases t) (auto simp: spec_identifier_def)
    with t(1) have "c' = c" "cs = u @ [10]" by simp_all
    with tu show "ident_start c \<and> (\<exists>u. cs = u @ [10] \<and> list_all ident_char u)" by blast
  next
    assume "ident_start c \<and> (\<exists>u. cs = u @ [10] \<and> list_all ident_char u)"
    then obtain u where "ident_start c" "cs = u @ [10]" "list_all ident_char u" by blast
    then have "c # cs = (c # u) @ [10] \<and> spec_identifier (c # u)"
      by (simp add: spec_identifier_def)
    then show "\<exists>t. c # cs = t @ [10] \<and> spec_identifier t" by blast
  qed
  then show ?thesis
    using Cons not10
    by (auto simp: IDENTIFIER_RE_match_def spec_identifier_def at_dollar_def
        dropWhile_single list_all_iff)
qed


lemma ident_Inr_iff:
  "ident env v = Inr c \<longleftrightarrow> (\<exists>s. v = PStr s \<and> c = Identifier s \<and> IDENTIFIER_RE_match s)"
  by (cases v) (auto simp: ident_def)

section \<open>The identifier validator\<close>

text \<open>
  C3.  The claim is that the identifier validator fails on every string outside
  \<open>[A-Za-z_][A-Za-z0-9_]*\<close>.  The source anchors its pattern with \<open>$\<close>, which in Python
  also holds before a final newline: the string \<open>abc\<close> followed by a newline is not an
  identifier of the specification, and \<open>_ident\<close> returns it as an identifier.
\<close>

theorem ident_accepts_trailing_newline:
  "ident env (PStr (ascii ''abc'' @ [10])) = Inr (Identifier (ascii ''abc'' @ [10]))
   \<and> \<not> spec_identifier (ascii ''abc'' @ [10])"
  by (simp add: ident_def IDENTIFIER_RE_match_def spec_identifier_def ascii_def ident_start_def
      ident_char_def at_dollar_def)

text \<open>
  What \<open>_ident\<close> does accept: exactly the strings that are an identifier of the
  specification, or such an identifier followed by one newline; the string is returned
  unchanged, and a value that is not a string is refused.
\<close>

theorem ident_result:
  "ident env v = Inr c \<longleftrightarrow>
     (\<exists>s. v = PStr s \<and> c = Identifier s \<and>
          (spec_identifier s \<or> (\<exists>t. s = t @ [10] \<and> spec_identifier t)))"
  by (simp add: ident_Inr_iff IDENTIFIER_RE_match_iff)

section \<open>Placeholders and parameters\<close>

lemma placeholders_sql_add: "placeholders (sql_add a b) = placeholders a + placeholders b"
  by (cases a; cases b) (simp_all add: sql_add_def)

lemma placeholders_sql_join:
  "placeholders sep = 0 \<Longrightarrow> placeholders (sql_join sep xs) = sum_list (map placeholders xs)"
  by (simp add: sql_join_def placeholders_intersperse)

lemma placeholders_add_limit: "placeholders (add_limit q l) = placeholders q"
  by (simp add: add_limit_def placeholders_sql_add)

lemma placeholders_ident: "ident env v = Inr c \<Longrightarrow> placeholders c = 0"
  by (auto simp: ident_Inr_iff)

lemma exn_bind_Inr_iff: "exn_bind r f = Inr y \<longleftrightarrow> (\<exists>x. r = Inr x \<and> f x = Inr y)"
  by (cases r) (simp_all add: exn_bind_def)

lemma ident_all_placeholders:
  "ident_all env cs = Inr ids \<Longrightarrow> sum_list (map placeholders ids) = 0 \<and> length ids = length cs"
  by (induction cs arbitrary: ids) (auto simp: exn_bind_Inr_iff ident_Inr_iff)

lemma set_clauses_count:
  "set_clauses env sm = Inr (cl, ps) \<Longrightarrow> sum_list (map placeholders cl) = length ps"
  by (induction sm arbitrary: cl ps) (auto simp: exn_bind_Inr_iff ident_Inr_iff)

lemma where_loop_count:
  "where_loop env items = Inr (cl, ps) \<Longrightarrow> sum_list (map placeholders cl) = length ps"
proof (induction items arbitrary: cl ps)
  case Nil
  then show ?case by simp
next
  case (Cons item items)
  obtain k v where item: "item = (k, v)" by (cases item)
  from Cons.prems obtain col cl' ps' where
    col: "ident env (PStr k) = Inr col" and rest: "where_loop env items = Inr (cl', ps')"
    and cl: "cl = fst (where_clause col v) # cl'" and ps: "ps = snd (where_clause col v) @ ps'"
    by (auto simp: item exn_bind_Inr_iff)
  from col have "placeholders col = 0" by (rule placeholders_ident)
  then have "placeholders (fst (where_clause col v)) = length (snd (where_clause col v))"
    by (rule where_clause_count)
  with Cons.IH [OF rest] cl ps show ?case by simp
qed

lemma build_where_count:
  "build_where_simple env wh = Inr (frag, params) \<Longrightarrow> placeholders frag = length params"
proof -
  assume h: "build_where_simple env wh = Inr (frag, params)"
  show ?thesis
  proof (cases "truthy wh")
    case False
    with h show ?thesis by (auto simp: build_where_simple_def)
  next
    case True
    with h obtain items where wh: "wh = PDict items"
      by (cases wh) (simp_all add: build_where_simple_def)
    from True wh have ne: "items \<noteq> []" by simp
    from h wh ne obtain cl where "where_loop env items = Inr (cl, params)"
      and "frag = Composed (SQL (ascii '' WHERE '') # intersperse (SQL (ascii '' AND '')) cl)"
      by (auto simp: build_where_simple_dict split: sum.splits)
    then show ?thesis
      using where_loop_count [of env items cl params] by (simp add: placeholders_intersperse)
  qed
qed


lemma read_query_count:
  assumes "read_query env content = Inr (q, ps)"
  shows "placeholders q = length ps"
proof -
  from assms obtain col_sql tbl where_sql columns table limit wh where
    cols: "(if truthy columns
            then exn_bind (py_iter columns) (\<lambda>cs.
                 exn_bind (ident_all env cs) (\<lambda>ids. Inr (sql_join (SQL (ascii '', '')) ids)))
            else Inr (SQL (ascii ''*''))) = Inr col_sql"
    and wh: "build_where_simple env wh = Inr (where_sql, ps)"
    and tbl: "ident env table = Inr tbl"
    and q: "q = add_limit (sql_add (Composed [SQL (ascii ''SELECT ''), col_sql,
                                               SQL (ascii '' FROM ''), tbl]) where_sql) limit"
    by (auto simp: read_query_def exn_bind_Inr_iff)
  from cols have "placeholders col_sql = 0"
    by (auto simp: exn_bind_Inr_iff placeholders_sql_join split: if_splits
        dest: ident_all_placeholders)
  moreover from tbl have "placeholders tbl = 0" by (rule placeholders_ident)
  moreover from wh have "placeholders where_sql = length ps" by (rule build_where_count)
  ultimately show ?thesis
    by (simp add: q placeholders_add_limit placeholders_sql_add)
qed

lemma delete_query_count:
  assumes "delete_query env content = Inr (q, ps)"
  shows "placeholders q = length ps"
proof -
  from assms obtain tbl where_sql table wh where
    wh: "build_where_simple env wh = Inr (where_sql, ps)"
    and tbl: "ident env table = Inr tbl"
    and q: "q = sql_add (sql_add (Composed [SQL (ascii ''DELETE FROM ''), tbl]) where_sql)
                        (SQL (ascii '' RETURNING *''))"
    by (auto simp: delete_query_def exn_bind_Inr_iff split: if_splits)
  from tbl have "placeholders tbl = 0" by (rule placeholders_ident)
  moreover from wh have "placeholders where_sql = length ps" by (rule build_where_count)
  ultimately show ?thesis by (simp add: q placeholders_sql_add)
qed

lemma update_query_count:
  assumes "update_query env content = Inr (q, ps)"
  shows "placeholders q = length ps"
proof -
  from assms obtain tbl where_sql table wh sm clauses params where_params where
    sc: "set_clauses env sm = Inr (clauses, params)"
    and wh: "build_where_simple env wh = Inr (where_sql, where_params)"
    and tbl: "ident env table = Inr tbl"
    and q: "q = sql_add (sql_add (sql_add (Composed [SQL (ascii ''UPDATE ''), tbl,
                                                      SQL (ascii '' SET '')])
                                           (sql_join (SQL (ascii '', '')) clauses))
                                  where_sql)
                        (SQL (ascii '' RETURNING *''))"
    and ps: "ps = params @ where_params"
    by (auto simp: update_query_def exn_bind_Inr_iff split: if_splits option.splits)
  from tbl have "placeholders tbl = 0" by (rule placeholders_ident)
  moreover from wh have "placeholders where_sql = length where_params" by (rule build_where_count)
  moreover from sc have "sum_list (map placeholders clauses) = length params"
    by (rule set_clauses_count)
  ultimately show ?thesis by (simp add: q ps placeholders_sql_add placeholders_sql_join)
qed

lemma insert_query_count:
  assumes "insert_query env content = Inr (q, ps)"
  shows "placeholders q = length ps"
proof -
  from assms obtain tbl table d ids where
    ids: "ident_all env (map (PStr \<circ> fst) d) = Inr ids"
    and tbl: "ident env table = Inr tbl"
    and q: "q = Composed [SQL (ascii ''INSERT INTO ''), tbl, SQL (ascii '' (''),
                          sql_join (SQL (ascii '', '')) ids, SQL (ascii '') VALUES (''),
                          sql_join (SQL (ascii '', '')) (map (\<lambda>_. Placeholder) ids),
                          SQL (ascii '') RETURNING *'')]"
    and ps: "ps = map snd d"
    by (auto simp: insert_query_def exn_bind_Inr_iff split: if_splits option.splits)
  from tbl have "placeholders tbl = 0" by (rule placeholders_ident)
  moreover from ids have "sum_list (map placeholders ids) = 0" "length ids = length d"
    by (auto dest: ident_all_placeholders)
  ultimately show ?thesis
    by (simp add: q ps placeholders_sql_join comp_def sum_list_const_one)
qed

lemma list_tables_query_count:
  assumes "list_tables_query env content = Inr (q, ps)"
  shows "placeholders q = length ps"
  using assms
  by (auto simp: list_tables_query_def exn_bind_Inr_iff placeholders_add_limit
      placeholders_sql_add placeholders_sql_join split: if_splits)

lemma column_defs_count:
  "column_defs env cols = Inr defs \<Longrightarrow> sum_list (map placeholders defs) = 0"
  by (induction cols arbitrary: defs) (auto simp: exn_bind_Inr_iff ident_Inr_iff)

lemma create_query_count:
  assumes "create_query env content = Inr (table, q)"
  shows "placeholders q = 0"
  using assms
  by (auto simp: create_query_def exn_bind_Inr_iff placeholders_sql_join ident_Inr_iff
      split: if_splits option.splits dest: column_defs_count)

lemma drop_query_count:
  assumes "drop_query env content = Inr (table, flag, q)"
  shows "placeholders q = 0"
  using assms
  by (auto simp: drop_query_def exn_bind_Inr_iff ident_Inr_iff split: if_splits)

lemma where_clause_params: "snd (where_clause col v) = bound_values v"
  by (simp add: where_clause_def bound_values_def split: option.splits)

lemma length_bound_values:
  "length (bound_values v) = (case shape_of v of Null_shape \<Rightarrow> 0 | Seq_shape n \<Rightarrow> n | Scalar_shape \<Rightarrow> 1)"
  by (simp add: bound_values_def shape_of_def split: option.splits)


section \<open>The fragment and the values\<close>

lemma set_intersperse: "set (intersperse sep xs) \<subseteq> insert sep (set xs)"
  by (induction sep xs rule: intersperse.induct) auto

lemma has_literal_join:
  "\<not> has_literal sep \<Longrightarrow> \<forall>x \<in> set xs. \<not> has_literal x \<Longrightarrow> \<not> has_literal (sql_join sep xs)"
  using set_intersperse [of sep xs] by (auto simp: sql_join_def list_ex_iff)

lemma where_clause_no_literal: "\<not> has_literal (fst (where_clause (Identifier k) v))"
proof -
  have "\<not> has_literal (sql_join (SQL (ascii '', '')) (map (\<lambda>_. Placeholder) vs))" for vs :: "pyval list"
    by (rule has_literal_join) auto
  then show ?thesis by (simp add: where_clause_def split: option.splits)
qed

lemma where_clause_shape:
  "shape_of v = shape_of v' \<Longrightarrow> fst (where_clause col v) = fst (where_clause col v')"
  by (auto simp: where_clause_def shape_of_def map_const_replicate split: option.splits if_splits)

lemma where_loop_shape:
  "map fst w1 = map fst w2 \<Longrightarrow> map (shape_of \<circ> snd) w1 = map (shape_of \<circ> snd) w2 \<Longrightarrow>
   map_sum id fst (where_loop env w1) = map_sum id fst (where_loop env w2)"
proof (induction w1 arbitrary: w2)
  case Nil
  then show ?case by simp
next
  case (Cons item1 w1)
  obtain k v1 where item1: "item1 = (k, v1)" by (cases item1)
  from Cons.prems obtain v2 rest where w2: "w2 = (k, v2) # rest"
    and keys: "map fst w1 = map fst rest"
    and shapes: "map (shape_of \<circ> snd) w1 = map (shape_of \<circ> snd) rest"
    and shape: "shape_of v1 = shape_of v2"
    by (cases w2) (auto simp: item1 comp_def)
  have IH: "map_sum id fst (where_loop env w1) = map_sum id fst (where_loop env rest)"
    using keys shapes by (rule Cons.IH)
  show ?case
  proof (cases "ident env (PStr k)")
    case (Inl e)
    then show ?thesis by (simp add: item1 w2 exn_bind_Inl)
  next
    case (Inr col)
    have "fst (where_clause col v1) = fst (where_clause col v2)"
      using shape by (rule where_clause_shape)
    with IH Inr show ?thesis
      by (cases "where_loop env w1"; cases "where_loop env rest")
         (auto simp: item1 w2 exn_bind_Inl exn_bind_Inr)
  qed
qed

lemma build_where_frag:
  "map_sum id fst (build_where_simple env (PDict w)) =
     (if w = [] then Inr (SQL [])
      else map_sum id (\<lambda>clauses. Composed (SQL (ascii '' WHERE '') #
                                           intersperse (SQL (ascii '' AND '')) clauses))
             (map_sum id fst (where_loop env w)))"
  by (cases "where_loop env w") (auto simp: build_where_simple_dict)

lemma build_where_Inr:
  assumes "build_where_simple env (PDict w) = Inr (frag, params)"
  shows "\<not> has_literal frag \<and> params = concat (map (bound_values \<circ> snd) w)"
proof (cases "w = []")
  case True
  with assms show ?thesis by (auto simp: build_where_simple_dict)
next
  case False
  with assms obtain clauses where loop: "where_loop env w = Inr (clauses, params)"
    and frag: "frag = Composed (SQL (ascii '' WHERE '') # intersperse (SQL (ascii '' AND '')) clauses)"
    by (auto simp: build_where_simple_dict split: sum.splits)
  from loop have valid: "list_all (\<lambda>(k, v). IDENTIFIER_RE_match k) w"
    by (rule where_loop_Inr_valid)
  from loop where_loop_valid [OF valid, of env]
  have clauses: "clauses = map (\<lambda>(k, v). fst (where_clause (Identifier k) v)) w"
    and params: "params = concat (map (\<lambda>(k, v). snd (where_clause (Identifier k) v)) w)"
    by simp_all
  have "\<forall>c \<in> set clauses. \<not> has_literal c"
    by (auto simp: clauses where_clause_no_literal)
  then have "\<not> has_literal (sql_join (SQL (ascii '' AND '')) clauses)"
    by (intro has_literal_join) auto
  then have "\<not> has_literal frag" by (simp add: frag sql_join_def)
  moreover have "(\<lambda>(k, v). snd (where_clause (Identifier k) v)) = bound_values \<circ> snd"
    by (auto simp: where_clause_params fun_eq_iff)
  ultimately show ?thesis by (simp add: params)
qed

text \<open>
  C1.  Two predicate maps with the same keys in the same order and the same value shapes
  (null, a sequence of a given length, a scalar) give the same outcome up to the
  parameters: the same exception, or the same fragment.  When the builder returns, the
  fragment holds no literal, it is the fragment of the other map object for object and
  so character for character, and the parameter list is exactly the values of the
  entries in order: nothing of a value reaches the SQL text.
\<close>

theorem where_fragment_determined_by_shapes:
  assumes "map fst w1 = map fst w2"
    and "map (shape_of \<circ> snd) w1 = map (shape_of \<circ> snd) w2"
  shows "map_sum id fst (build_where_simple env (PDict w1)) =
           map_sum id fst (build_where_simple env (PDict w2))
         \<and> (\<forall>frag1 params1. build_where_simple env (PDict w1) = Inr (frag1, params1) \<longrightarrow>
               \<not> has_literal frag1
               \<and> params1 = concat (map (bound_values \<circ> snd) w1)
               \<and> (\<exists>frag2. build_where_simple env (PDict w2) =
                              Inr (frag2, concat (map (bound_values \<circ> snd) w2))
                          \<and> frag2 = frag1 \<and> as_string env frag2 = as_string env frag1))"
proof -
  have same: "map_sum id fst (build_where_simple env (PDict w1)) =
                map_sum id fst (build_where_simple env (PDict w2))"
  proof -
    from assms(1) have "w1 = [] \<longleftrightarrow> w2 = []" by (metis map_is_Nil_conv)
    then show ?thesis
      by (simp add: build_where_frag where_loop_shape [OF assms])
  qed
  have rest: "\<not> has_literal frag1 \<and> params1 = concat (map (bound_values \<circ> snd) w1)
        \<and> (\<exists>frag2. build_where_simple env (PDict w2) =
                       Inr (frag2, concat (map (bound_values \<circ> snd) w2))
                   \<and> frag2 = frag1 \<and> as_string env frag2 = as_string env frag1)"
    if h: "build_where_simple env (PDict w1) = Inr (frag1, params1)" for frag1 params1
  proof -
    from h same obtain params2 where two: "build_where_simple env (PDict w2) = Inr (frag1, params2)"
      by (cases "build_where_simple env (PDict w2)") auto
    from build_where_Inr [OF h] build_where_Inr [OF two] two show ?thesis by simp
  qed
  from same rest show ?thesis by blast
qed

theorem where_fragment_determined_by_shapes_witness:
  "build_where_simple example_env
     (PDict [(ascii ''name'', PStr (ascii ''Bob'')), (ascii ''id'', PList [PInt 1, PInt 2])]) =
   Inr (Composed
          [SQL (ascii '' WHERE ''),
           Composed [Identifier (ascii ''name''), SQL (ascii '' = ''), Placeholder],
           SQL (ascii '' AND ''),
           Composed [Identifier (ascii ''id''), SQL (ascii '' IN (''),
                     Composed [Placeholder, SQL (ascii '', ''), Placeholder], SQL (ascii '')'')]],
        [PStr (ascii ''Bob''), PInt 1, PInt 2])
   \<and> map_sum id fst (build_where_simple example_env
         (PDict [(ascii ''name'', PStr (ascii ''Bob'')), (ascii ''id'', PList [PInt 1, PInt 2])])) =
     map_sum id fst (build_where_simple example_env
         (PDict [(ascii ''name'', PStr (ascii ''x' OR 1=1 --'')),
                 (ascii ''id'', PList [PNone, PStr (ascii ''; DROP TABLE t'')])]))"
  using where_fragment_determined_by_shapes [of
      "[(ascii ''name'', PStr (ascii ''Bob'')), (ascii ''id'', PList [PInt 1, PInt 2])]"
      "[(ascii ''name'', PStr (ascii ''x' OR 1=1 --'')),
        (ascii ''id'', PList [PNone, PStr (ascii ''; DROP TABLE t'')])]" example_env]
  by (simp add: shape_of_def build_where_simple_dict where_clause_def sql_join_def ident_str
      exn_bind_def IDENTIFIER_RE_match_def ident_start_def ident_char_def at_dollar_def ascii_def)


text \<open>
  C10.  Whenever the predicate builder returns, the fragment holds as many placeholders
  as the parameter list has values.  One entry contributes equally to both: nothing
  for null and for an empty sequence, \<open>n\<close> for a sequence of length \<open>n\<close>, one for a scalar.
  The same equality holds for the statement and parameters of every operation that
  binds parameters, and the two DDL statements hold no placeholder.
\<close>

theorem placeholders_match_parameters:
  "(build_where_simple env wh = Inr (frag, params) \<longrightarrow> placeholders frag = length params)
   \<and> placeholders (fst (where_clause (Identifier k) v)) = length (snd (where_clause (Identifier k) v))
   \<and> length (snd (where_clause (Identifier k) v)) =
       (case shape_of v of Null_shape \<Rightarrow> 0 | Seq_shape n \<Rightarrow> n | Scalar_shape \<Rightarrow> 1)
   \<and> (read_query env content = Inr (q, ps) \<longrightarrow> placeholders q = length ps)
   \<and> (delete_query env content = Inr (q, ps) \<longrightarrow> placeholders q = length ps)
   \<and> (update_query env content = Inr (q, ps) \<longrightarrow> placeholders q = length ps)
   \<and> (insert_query env content = Inr (q, ps) \<longrightarrow> placeholders q = length ps)
   \<and> (list_tables_query env content = Inr (q, ps) \<longrightarrow> placeholders q = length ps)
   \<and> (create_query env content = Inr (table, q) \<longrightarrow> placeholders q = 0)
   \<and> (drop_query env content = Inr (table, flag, q) \<longrightarrow> placeholders q = 0)"
proof -
  have "placeholders (fst (where_clause (Identifier k) v)) =
          length (snd (where_clause (Identifier k) v))"
    by (rule where_clause_count) simp
  moreover have "length (snd (where_clause (Identifier k) v)) =
       (case shape_of v of Null_shape \<Rightarrow> 0 | Seq_shape n \<Rightarrow> n | Scalar_shape \<Rightarrow> 1)"
    by (simp add: where_clause_params length_bound_values)
  ultimately show ?thesis
    by (intro conjI impI)
       (assumption | erule build_where_count read_query_count delete_query_count
          update_query_count insert_query_count list_tables_query_count create_query_count
          drop_query_count)+
qed

theorem placeholders_match_parameters_witness:
  "update_query example_env
     (PDict [(ascii ''table'', PStr (ascii ''person'')),
             (ascii ''set'', PDict [(ascii ''name'', PStr (ascii ''Veli''))]),
             (ascii ''where'', PDict [(ascii ''id'', PList [PInt 1, PInt 2]),
                                     (ascii ''age'', PNone)])]) =
   Inr (Composed
          [SQL (ascii ''UPDATE ''), Identifier (ascii ''person''), SQL (ascii '' SET ''),
           Composed [Identifier (ascii ''name''), SQL (ascii '' = ''), Placeholder],
           SQL (ascii '' WHERE ''),
           Composed [Identifier (ascii ''id''), SQL (ascii '' IN (''),
                     Composed [Placeholder, SQL (ascii '', ''), Placeholder], SQL (ascii '')'')],
           SQL (ascii '' AND ''),
           Composed [Identifier (ascii ''age''), SQL (ascii '' IS NULL'')],
           SQL (ascii '' RETURNING *'')],
        [PStr (ascii ''Veli''), PInt 1, PInt 2])
   \<and> placeholders
        (Composed
          [SQL (ascii ''UPDATE ''), Identifier (ascii ''person''), SQL (ascii '' SET ''),
           Composed [Identifier (ascii ''name''), SQL (ascii '' = ''), Placeholder],
           SQL (ascii '' WHERE ''),
           Composed [Identifier (ascii ''id''), SQL (ascii '' IN (''),
                     Composed [Placeholder, SQL (ascii '', ''), Placeholder], SQL (ascii '')'')],
           SQL (ascii '' AND ''),
           Composed [Identifier (ascii ''age''), SQL (ascii '' IS NULL'')],
           SQL (ascii '' RETURNING *'')]) = 3"
proof -
  have built: "update_query example_env
     (PDict [(ascii ''table'', PStr (ascii ''person'')),
             (ascii ''set'', PDict [(ascii ''name'', PStr (ascii ''Veli''))]),
             (ascii ''where'', PDict [(ascii ''id'', PList [PInt 1, PInt 2]),
                                     (ascii ''age'', PNone)])]) =
   Inr (Composed
          [SQL (ascii ''UPDATE ''), Identifier (ascii ''person''), SQL (ascii '' SET ''),
           Composed [Identifier (ascii ''name''), SQL (ascii '' = ''), Placeholder],
           SQL (ascii '' WHERE ''),
           Composed [Identifier (ascii ''id''), SQL (ascii '' IN (''),
                     Composed [Placeholder, SQL (ascii '', ''), Placeholder], SQL (ascii '')'')],
           SQL (ascii '' AND ''),
           Composed [Identifier (ascii ''age''), SQL (ascii '' IS NULL'')],
           SQL (ascii '' RETURNING *'')],
        [PStr (ascii ''Veli''), PInt 1, PInt 2])"
    by (simp add: update_query_def parse_def py_getitem_def py_get_def dict_get_def
        exn_bind_def build_where_simple_dict where_clause_def sql_join_def sql_add_def ident_def
        IDENTIFIER_RE_match_def ident_start_def ident_char_def at_dollar_def ascii_def)
  from built placeholders_match_parameters [THEN conjunct2, THEN conjunct2, THEN conjunct2,
      THEN conjunct2, THEN conjunct2, THEN conjunct1, rule_format, OF built]
  show ?thesis by simp
qed


section \<open>Content that is not an object\<close>

lemma parse_Inr_cases:
  assumes "parse env content = Inr data"
  shows "(\<exists>d. data = PDict d \<and> denotes_object env content) \<or> (\<exists>xs. data = PList xs \<and> content = PList xs)"
proof (cases content)
  case (PStr s)
  with assms show ?thesis
    by (cases data)
       (auto simp: parse_def denotes_object_def exn_bind_Inr_iff split: if_splits option.splits)
qed (use assms in \<open>auto simp: parse_def denotes_object_def split: if_splits\<close>)

lemma py_getitem_list: "py_getitem (PList xs) key = Inl TypeError"
  by (simp add: py_getitem_def)

lemma py_get_list: "py_get (PList xs) key dflt = Inl AttributeError"
  by (simp add: py_get_def)

lemma run_Inl: "run env (Inl e) result = (Inl e, [])"
  by (simp add: run_def)

lemma not_object_parse:
  assumes "\<not> denotes_object env content"
  shows "(\<exists>e. parse env content = Inl e) \<or> (\<exists>xs. parse env content = Inr (PList xs))"
proof (cases "parse env content")
  case (Inl e)
  then show ?thesis by simp
next
  case (Inr data)
  with parse_Inr_cases [OF Inr] assms show ?thesis by auto
qed

lemma not_object_queries:
  assumes "\<not> denotes_object env content"
  shows "\<exists>e. create_query env content = Inl e"
    and "\<exists>e. drop_query env content = Inl e"
    and "\<exists>e. insert_query env content = Inl e"
    and "\<exists>e. read_query env content = Inl e"
    and "\<exists>e. delete_query env content = Inl e"
    and "\<exists>e. update_query env content = Inl e"
    and "\<exists>e. list_tables_query env content = Inl e"
  using not_object_parse [OF assms]
  by (auto simp: create_query_def drop_query_def insert_query_def read_query_def delete_query_def
      update_query_def list_tables_query_def exn_bind_Inl exn_bind_Inr py_getitem_list py_get_list)

lemma operation_query_Inl:
  "create_query env content = Inl e \<Longrightarrow> create_sql_table env content = (Inl e, [])"
  "drop_query env content = Inl e \<Longrightarrow> drop_sql_table env content = (Inl e, [])"
  "insert_query env content = Inl e \<Longrightarrow> insert_sql_entry env content = (Inl e, [])"
  "read_query env content = Inl e \<Longrightarrow> read_sql_entry env content = (Inl e, [])"
  "delete_query env content = Inl e \<Longrightarrow> delete_sql_entry env content = (Inl e, [])"
  "update_query env content = Inl e \<Longrightarrow> update_sql_entry env content = (Inl e, [])"
  "list_tables_query env content = Inl e \<Longrightarrow> list_tables env content = (Inl e, [])"
  by (simp_all add: create_sql_table_def drop_sql_table_def insert_sql_entry_def
      read_sql_entry_def delete_sql_entry_def update_sql_entry_def list_tables_def run_Inl)

text \<open>
  C7.  Content that does not denote a JSON object (it is \<open>None\<close>, empty, text the
  decoder refuses, text that decodes to something else, or a decoded value that is not
  a \<open>dict\<close>) makes each of the seven operations raise before its statement is built,
  and nothing is executed.  \<open>_parse\<close> itself raises on \<open>None\<close> and on the empty string,
  passes on the decoder's exception, raises on decoded text that is not an object, and
  returns a decoded object as it is.  (A decoded list passes \<open>_parse\<close>, as its docstring
  says, and is refused by the first field access of the operation.)
\<close>

theorem non_object_content_rejected:
  "(\<not> denotes_object env content \<longrightarrow>
      (\<exists>e. create_query env content = Inl e \<and> create_sql_table env content = (Inl e, []))
    \<and> (\<exists>e. drop_query env content = Inl e \<and> drop_sql_table env content = (Inl e, []))
    \<and> (\<exists>e. insert_query env content = Inl e \<and> insert_sql_entry env content = (Inl e, []))
    \<and> (\<exists>e. read_query env content = Inl e \<and> read_sql_entry env content = (Inl e, []))
    \<and> (\<exists>e. delete_query env content = Inl e \<and> delete_sql_entry env content = (Inl e, []))
    \<and> (\<exists>e. update_query env content = Inl e \<and> update_sql_entry env content = (Inl e, []))
    \<and> (\<exists>e. list_tables_query env content = Inl e \<and> list_tables env content = (Inl e, [])))
   \<and> parse env PNone = Inl content_empty
   \<and> parse env (PStr []) = Inl content_empty
   \<and> (s \<noteq> [] \<and> json_loads env s = Inl e \<longrightarrow> parse env (PStr s) = Inl e)
   \<and> (s \<noteq> [] \<and> json_loads env s = Inr data \<and> dict_items data = None \<longrightarrow>
        parse env (PStr s) = Inl content_not_object)
   \<and> (s \<noteq> [] \<and> json_loads env s = Inr (PDict d) \<longrightarrow> parse env (PStr s) = Inr (PDict d))
   \<and> parse env (PDict d) = Inr (PDict d)"
proof -
  have ops: "(\<exists>e. create_query env content = Inl e \<and> create_sql_table env content = (Inl e, []))
    \<and> (\<exists>e. drop_query env content = Inl e \<and> drop_sql_table env content = (Inl e, []))
    \<and> (\<exists>e. insert_query env content = Inl e \<and> insert_sql_entry env content = (Inl e, []))
    \<and> (\<exists>e. read_query env content = Inl e \<and> read_sql_entry env content = (Inl e, []))
    \<and> (\<exists>e. delete_query env content = Inl e \<and> delete_sql_entry env content = (Inl e, []))
    \<and> (\<exists>e. update_query env content = Inl e \<and> update_sql_entry env content = (Inl e, []))
    \<and> (\<exists>e. list_tables_query env content = Inl e \<and> list_tables env content = (Inl e, []))"
    if h: "\<not> denotes_object env content"
    using not_object_queries [OF h] by (auto simp: operation_query_Inl)
  have p1: "parse env PNone = Inl content_empty" "parse env (PStr []) = Inl content_empty"
    by (simp_all add: parse_def)
  have p2: "s \<noteq> [] \<and> json_loads env s = Inl e \<longrightarrow> parse env (PStr s) = Inl e"
    by (simp add: parse_def exn_bind_Inl)
  have p3: "s \<noteq> [] \<and> json_loads env s = Inr data \<and> dict_items data = None \<longrightarrow>
        parse env (PStr s) = Inl content_not_object"
    by (simp add: parse_def exn_bind_Inr)
  have p4: "s \<noteq> [] \<and> json_loads env s = Inr (PDict d) \<longrightarrow> parse env (PStr s) = Inr (PDict d)"
    by (simp add: parse_def exn_bind_Inr)
  have p5: "parse env (PDict d) = Inr (PDict d)"
    by (simp add: parse_def)
  from ops p1 p2 p3 p4 p5 show ?thesis by blast
qed


theorem non_object_content_rejected_witness:
  "\<not> denotes_object example_env (PList [PInt 1])
   \<and> read_sql_entry example_env (PList [PInt 1]) = (Inl TypeError, [])
   \<and> list_tables example_env (PList [PInt 1]) = (Inl AttributeError, [])
   \<and> parse example_env (PStr (ascii ''[1]'')) = Inl content_not_object
   \<and> parse example_env (PStr (ascii ''{'')) = Inl JSONDecodeError
   \<and> parse example_env (PStr (ascii ''{}'')) = Inr (PDict [])"
  using non_object_content_rejected [of example_env "PList [PInt 1]" "ascii ''{''" JSONDecodeError
      "PList [PInt 1]" "[]"]
    non_object_content_rejected [of example_env "PList [PInt 1]" "ascii ''[1]''" JSONDecodeError
      "PList [PInt 1]" "[]"]
    non_object_content_rejected [of example_env "PList [PInt 1]" "ascii ''{}''" JSONDecodeError
      "PList [PInt 1]" "[]"]
  by (simp add: denotes_object_def example_env_def ascii_def read_sql_entry_def list_tables_def
      read_query_def list_tables_query_def parse_def py_getitem_def py_get_def exn_bind_def
      run_def)

section \<open>Delete and update need a predicate\<close>

lemma delete_query_dict:
  assumes "parse env content = Inr (PDict d)"
  shows "delete_query env content =
           (case map_of d (ascii ''table'') of
              None \<Rightarrow> Inl (KeyError (ascii ''table''))
            | Some table \<Rightarrow>
                if \<not> truthy (dict_get d (ascii ''where'') PNone) then Inl where_required
                else exn_bind (build_where_simple env (dict_get d (ascii ''where'') PNone))
                       (\<lambda>(where_sql, params).
                        exn_bind (ident env table) (\<lambda>tbl.
                          Inr (sql_add (sql_add (Composed [SQL (ascii ''DELETE FROM ''), tbl])
                                                where_sql)
                                       (SQL (ascii '' RETURNING *'')),
                               params))))"
  using assms
  by (simp add: delete_query_def py_getitem_def py_get_def exn_bind_Inr exn_bind_Inl
      split: option.splits)

lemma update_query_dict:
  assumes "parse env content = Inr (PDict d)"
  shows "update_query env content =
           (case map_of d (ascii ''table'') of
              None \<Rightarrow> Inl (KeyError (ascii ''table''))
            | Some table \<Rightarrow>
                (case dict_items (dict_get d (ascii ''set'') PNone) of
                   None \<Rightarrow> Inl (dict_empty (ascii ''set''))
                 | Some sm \<Rightarrow>
                     if sm = [] then Inl (dict_empty (ascii ''set''))
                     else if \<not> truthy (dict_get d (ascii ''where'') PNone) then Inl where_required
                     else
                       exn_bind (set_clauses env sm) (\<lambda>(clauses, params).
                       exn_bind (build_where_simple env (dict_get d (ascii ''where'') PNone))
                         (\<lambda>(where_sql, where_params).
                       exn_bind (ident env table) (\<lambda>tbl.
                         Inr (sql_add
                                (sql_add
                                   (sql_add (Composed [SQL (ascii ''UPDATE ''), tbl,
                                                       SQL (ascii '' SET '')])
                                            (sql_join (SQL (ascii '', '')) clauses))
                                   where_sql)
                                (SQL (ascii '' RETURNING *'')),
                              params @ where_params))))))"
  using assms
  by (simp add: update_query_def py_getitem_def py_get_def exn_bind_Inr exn_bind_Inl
      split: option.splits)

lemma where_missing_falsy:
  "map_of d (ascii ''where'') = None \<or> map_of d (ascii ''where'') = Some (PDict []) \<Longrightarrow>
   \<not> truthy (dict_get d (ascii ''where'') PNone)"
  by (auto simp: dict_get_def)

lemma set_missing_not_dict:
  "map_of d (ascii ''set'') = None \<or> map_of d (ascii ''set'') = Some (PDict []) \<Longrightarrow>
   dict_items (dict_get d (ascii ''set'') PNone) = None \<or>
   dict_items (dict_get d (ascii ''set'') PNone) = Some []"
  by (auto simp: dict_get_def)

lemma parse_Inr_dict_or_list:
  "parse env content = Inr data \<Longrightarrow> (\<exists>d. data = PDict d) \<or> (\<exists>xs. data = PList xs)"
  using parse_Inr_cases by blast

lemma delete_without_where:
  assumes "\<forall>d. parse env content = Inr (PDict d) \<longrightarrow>
             map_of d (ascii ''where'') = None \<or> map_of d (ascii ''where'') = Some (PDict [])"
  shows "\<exists>e. delete_query env content = Inl e"
proof (cases "parse env content")
  case (Inl e)
  then show ?thesis by (simp add: delete_query_def exn_bind_Inl)
next
  case (Inr data)
  from parse_Inr_dict_or_list [OF Inr] show ?thesis
  proof
    assume "\<exists>d. data = PDict d"
    then obtain d where d: "data = PDict d" by blast
    with Inr assms have "\<not> truthy (dict_get d (ascii ''where'') PNone)"
      by (intro where_missing_falsy) simp
    with Inr d show ?thesis by (simp add: delete_query_dict split: option.splits)
  next
    assume "\<exists>xs. data = PList xs"
    with Inr show ?thesis
      by (auto simp: delete_query_def exn_bind_Inr exn_bind_Inl py_getitem_list)
  qed
qed

lemma update_without_where:
  assumes "\<forall>d. parse env content = Inr (PDict d) \<longrightarrow>
             map_of d (ascii ''where'') = None \<or> map_of d (ascii ''where'') = Some (PDict [])"
  shows "\<exists>e. update_query env content = Inl e"
proof (cases "parse env content")
  case (Inl e)
  then show ?thesis by (simp add: update_query_def exn_bind_Inl)
next
  case (Inr data)
  from parse_Inr_dict_or_list [OF Inr] show ?thesis
  proof
    assume "\<exists>d. data = PDict d"
    then obtain d where d: "data = PDict d" by blast
    with Inr assms have "\<not> truthy (dict_get d (ascii ''where'') PNone)"
      by (intro where_missing_falsy) simp
    with Inr d show ?thesis by (simp add: update_query_dict split: option.splits)
  next
    assume "\<exists>xs. data = PList xs"
    with Inr show ?thesis
      by (auto simp: update_query_def exn_bind_Inr exn_bind_Inl py_getitem_list)
  qed
qed

lemma update_without_set:
  assumes "\<forall>d. parse env content = Inr (PDict d) \<longrightarrow>
             map_of d (ascii ''set'') = None \<or> map_of d (ascii ''set'') = Some (PDict [])"
  shows "\<exists>e. update_query env content = Inl e"
proof (cases "parse env content")
  case (Inl e)
  then show ?thesis by (simp add: update_query_def exn_bind_Inl)
next
  case (Inr data)
  from parse_Inr_dict_or_list [OF Inr] show ?thesis
  proof
    assume "\<exists>d. data = PDict d"
    then obtain d where d: "data = PDict d" by blast
    with Inr assms have "dict_items (dict_get d (ascii ''set'') PNone) = None \<or>
        dict_items (dict_get d (ascii ''set'') PNone) = Some []"
      by (intro set_missing_not_dict) simp
    with Inr d show ?thesis by (auto simp: update_query_dict split: option.splits)
  next
    assume "\<exists>xs. data = PList xs"
    with Inr show ?thesis
      by (auto simp: update_query_def exn_bind_Inr exn_bind_Inl py_getitem_list)
  qed
qed

text \<open>
  C4.  When the decoded payload has no \<open>where\<close> field, or has the empty map there,
  \<open>delete_sql_entry\<close> and \<open>update_sql_entry\<close> raise before a statement is built and
  execute nothing; with a table name present the exception is the one that demands a
  \<open>WHERE\<close> (for update, when \<open>set\<close> is a non-empty map).  When \<open>set\<close> is absent or
  empty, \<open>update_sql_entry\<close> raises likewise, and with a table name present the exception
  is the one about \<open>set\<close>.
\<close>

theorem mutation_requires_where:
  "((\<forall>d. parse env content = Inr (PDict d) \<longrightarrow>
          map_of d (ascii ''where'') = None \<or> map_of d (ascii ''where'') = Some (PDict [])) \<longrightarrow>
      (\<exists>e. delete_query env content = Inl e \<and> delete_sql_entry env content = (Inl e, []))
    \<and> (\<exists>e. update_query env content = Inl e \<and> update_sql_entry env content = (Inl e, []))
    \<and> (\<forall>d table. parse env content = Inr (PDict d) \<and> map_of d (ascii ''table'') = Some table \<longrightarrow>
          delete_query env content = Inl where_required)
    \<and> (\<forall>d table sm. parse env content = Inr (PDict d) \<and> map_of d (ascii ''table'') = Some table
            \<and> map_of d (ascii ''set'') = Some (PDict sm) \<and> sm \<noteq> [] \<longrightarrow>
          update_query env content = Inl where_required))
   \<and> ((\<forall>d. parse env content = Inr (PDict d) \<longrightarrow>
          map_of d (ascii ''set'') = None \<or> map_of d (ascii ''set'') = Some (PDict [])) \<longrightarrow>
      (\<exists>e. update_query env content = Inl e \<and> update_sql_entry env content = (Inl e, []))
    \<and> (\<forall>d table. parse env content = Inr (PDict d) \<and> map_of d (ascii ''table'') = Some table \<longrightarrow>
          update_query env content = Inl (dict_empty (ascii ''set''))))"
proof (intro conjI impI allI)
  assume h: "\<forall>d. parse env content = Inr (PDict d) \<longrightarrow>
          map_of d (ascii ''where'') = None \<or> map_of d (ascii ''where'') = Some (PDict [])"
  from delete_without_where [OF h]
  show "\<exists>e. delete_query env content = Inl e \<and> delete_sql_entry env content = (Inl e, [])"
    by (auto simp: operation_query_Inl)
  from update_without_where [OF h]
  show "\<exists>e. update_query env content = Inl e \<and> update_sql_entry env content = (Inl e, [])"
    by (auto simp: operation_query_Inl)
  show "delete_query env content = Inl where_required"
    if "parse env content = Inr (PDict d) \<and> map_of d (ascii ''table'') = Some table" for d table
    using that h where_missing_falsy [of d] by (simp add: delete_query_dict)
  show "update_query env content = Inl where_required"
    if "parse env content = Inr (PDict d) \<and> map_of d (ascii ''table'') = Some table
            \<and> map_of d (ascii ''set'') = Some (PDict sm) \<and> sm \<noteq> []" for d table sm
    using that h where_missing_falsy [of d] by (simp add: update_query_dict dict_get_def)
next
  assume h: "\<forall>d. parse env content = Inr (PDict d) \<longrightarrow>
          map_of d (ascii ''set'') = None \<or> map_of d (ascii ''set'') = Some (PDict [])"
  from update_without_set [OF h]
  show "\<exists>e. update_query env content = Inl e \<and> update_sql_entry env content = (Inl e, [])"
    by (auto simp: operation_query_Inl)
  show "update_query env content = Inl (dict_empty (ascii ''set''))"
    if "parse env content = Inr (PDict d) \<and> map_of d (ascii ''table'') = Some table" for d table
    using that h set_missing_not_dict [of d] by (auto simp: update_query_dict)
qed


theorem mutation_requires_where_witness:
  "delete_sql_entry example_env (PDict [(ascii ''table'', PStr (ascii ''person''))]) =
     (Inl where_required, [])
   \<and> delete_sql_entry example_env
        (PDict [(ascii ''table'', PStr (ascii ''person'')), (ascii ''where'', PDict [])]) =
     (Inl where_required, [])
   \<and> update_sql_entry example_env
        (PDict [(ascii ''table'', PStr (ascii ''person'')),
                (ascii ''set'', PDict [(ascii ''name'', PStr (ascii ''Veli''))]),
                (ascii ''where'', PDict [])]) =
     (Inl where_required, [])
   \<and> update_sql_entry example_env
        (PDict [(ascii ''table'', PStr (ascii ''person'')),
                (ascii ''where'', PDict [(ascii ''id'', PInt 1)])]) =
     (Inl (dict_empty (ascii ''set'')), [])"
  using mutation_requires_where [of example_env "PDict [(ascii ''table'', PStr (ascii ''person''))]"]
    mutation_requires_where [of example_env
      "PDict [(ascii ''table'', PStr (ascii ''person'')), (ascii ''where'', PDict [])]"]
    mutation_requires_where [of example_env
      "PDict [(ascii ''table'', PStr (ascii ''person'')),
              (ascii ''set'', PDict [(ascii ''name'', PStr (ascii ''Veli''))]),
              (ascii ''where'', PDict [])]"]
    mutation_requires_where [of example_env
      "PDict [(ascii ''table'', PStr (ascii ''person'')),
              (ascii ''where'', PDict [(ascii ''id'', PInt 1)])]"]
  by (simp add: parse_def ascii_def delete_sql_entry_def update_sql_entry_def run_def)

section \<open>The limit of a select\<close>

text \<open>
  C9.  The claim is that a \<open>LIMIT\<close> clause is appended exactly for a positive integer
  and that any other value is ignored.  The source tests \<open>isinstance(limit, int)\<close>,
  which a \<open>bool\<close> passes: for the JSON value \<open>true\<close> the statement ends with \<open>LIMIT\<close>
  and the literal \<open>True\<close>, which is not an integer literal.
\<close>

theorem limit_true_is_inlined:
  "read_query env (PDict [(ascii ''table'', PStr (ascii ''t'')), (ascii ''limit'', PBool True)]) =
     Inr (Composed [SQL (ascii ''SELECT ''), SQL (ascii ''*''), SQL (ascii '' FROM ''),
                    Identifier (ascii ''t''), SQL [],
                    SQL (ascii '' LIMIT ''), Literal_sql (PBool True)],
          [])"
  by (simp add: read_query_def parse_def py_getitem_def py_get_def dict_get_def exn_bind_def
      build_where_simple_def add_limit_def limit_applies_def sql_add_def ident_def
      IDENTIFIER_RE_match_def ident_start_def ident_char_def at_dollar_def ascii_def)

text \<open>
  Apart from \<open>True\<close> the clause is appended exactly for a positive integer, with the
  integer as a literal of the statement and not as a parameter; every other value
  leaves the statement as it is.
\<close>

theorem limit_clause:
  "add_limit query limit =
     (if (\<exists>n. limit = PInt n \<and> 0 < n) \<or> limit = PBool True
      then sql_add query (Composed [SQL (ascii '' LIMIT ''), Literal_sql limit])
      else query)"
  by (cases limit) (auto simp: add_limit_def limit_applies_def)


section \<open>The pattern of list-tables\<close>

lemma like_pattern_str:
  "like_pattern env (PStr p) =
     Inr (PStr (if 37 \<in> set p \<or> 95 \<in> set p then p else [37] @ p @ [37]))"
  by (simp add: like_pattern_def py_contains_def exn_bind_Inr fmt_def)

lemma list_tables_query_dict:
  assumes "parse env content = Inr (PDict d)"
  shows "list_tables_query env content =
     exn_bind (if truthy (dict_get d (ascii ''pattern'') PNone)
               then exn_bind (like_pattern env (dict_get d (ascii ''pattern'') PNone)) (\<lambda>pat.
                      Inr ([Composed [SQL (ascii ''table_name ILIKE ''), Placeholder]], [pat]))
               else Inr ([], [])) (\<lambda>(pattern_sql, pattern_params).
       Inr (add_limit
              (sql_add
                 (sql_add
                    (SQL (ascii ''SELECT table_schema, table_name, table_type FROM information_schema.tables WHERE ''))
                    (sql_join (SQL (ascii '' AND ''))
                       ([SQL (ascii ''1=1'')] @
                        (if \<not> truthy (dict_get d (ascii ''include_views'') (PBool False))
                         then [SQL (ascii ''table_type = '' @ [39] @ ascii ''BASE TABLE'' @ [39])]
                         else []) @
                        (if truthy (dict_get d (ascii ''schema'') PNone)
                         then [Composed [SQL (ascii ''table_schema = ''), Placeholder]]
                         else []) @
                        pattern_sql)))
                 (SQL (ascii '' ORDER BY table_schema, table_name'')))
              (dict_get d (ascii ''limit'') (PInt 200)),
            (if truthy (dict_get d (ascii ''schema'') PNone)
             then [dict_get d (ascii ''schema'') PNone] else []) @ pattern_params))"
  using assms by (simp add: list_tables_query_def py_get_def exn_bind_Inr)

text \<open>
  C8.  When the decoded payload holds a non-empty string as \<open>pattern\<close>, the statement of
  list-tables ends its conditions with \<open>table_name ILIKE\<close> and a placeholder, and the
  last parameter is the pattern itself when it holds a percent sign or an underscore,
  and the pattern between two percent signs otherwise.  The statement is the same for
  every other non-empty pattern: the pattern reaches the database only as a parameter.
\<close>

theorem list_tables_pattern_bound:
  "parse env content = Inr (PDict d) \<and> map_of d (ascii ''pattern'') = Some (PStr p) \<and> p \<noteq> [] \<longrightarrow>
     list_tables_query env content =
       Inr (add_limit
              (Composed
                 ([SQL (ascii ''SELECT table_schema, table_name, table_type FROM information_schema.tables WHERE '')] @
                  intersperse (SQL (ascii '' AND ''))
                    ([SQL (ascii ''1=1'')] @
                     (if \<not> truthy (dict_get d (ascii ''include_views'') (PBool False))
                      then [SQL (ascii ''table_type = '' @ [39] @ ascii ''BASE TABLE'' @ [39])]
                      else []) @
                     (if truthy (dict_get d (ascii ''schema'') PNone)
                      then [Composed [SQL (ascii ''table_schema = ''), Placeholder]]
                      else []) @
                     [Composed [SQL (ascii ''table_name ILIKE ''), Placeholder]]) @
                  [SQL (ascii '' ORDER BY table_schema, table_name'')]))
              (dict_get d (ascii ''limit'') (PInt 200)),
            (if truthy (dict_get d (ascii ''schema'') PNone)
             then [dict_get d (ascii ''schema'') PNone] else []) @
            [PStr (if 37 \<in> set p \<or> 95 \<in> set p then p else [37] @ p @ [37])])
     \<and> (\<forall>p'. p' \<noteq> [] \<longrightarrow>
            map_sum id fst (list_tables_query env (PDict ((ascii ''pattern'', PStr p') # d))) =
            map_sum id fst (list_tables_query env content))"
proof (intro impI)
  assume h: "parse env content = Inr (PDict d) \<and> map_of d (ascii ''pattern'') = Some (PStr p) \<and> p \<noteq> []"
  then have parsed: "parse env content = Inr (PDict d)"
    and pat: "dict_get d (ascii ''pattern'') PNone = PStr p" and ne: "p \<noteq> []"
    by (simp_all add: dict_get_def)
  let ?stmt = "add_limit
              (Composed
                 ([SQL (ascii ''SELECT table_schema, table_name, table_type FROM information_schema.tables WHERE '')] @
                  intersperse (SQL (ascii '' AND ''))
                    ([SQL (ascii ''1=1'')] @
                     (if \<not> truthy (dict_get d (ascii ''include_views'') (PBool False))
                      then [SQL (ascii ''table_type = '' @ [39] @ ascii ''BASE TABLE'' @ [39])]
                      else []) @
                     (if truthy (dict_get d (ascii ''schema'') PNone)
                      then [Composed [SQL (ascii ''table_schema = ''), Placeholder]]
                      else []) @
                     [Composed [SQL (ascii ''table_name ILIKE ''), Placeholder]]) @
                  [SQL (ascii '' ORDER BY table_schema, table_name'')]))
              (dict_get d (ascii ''limit'') (PInt 200))"
  have one: "list_tables_query env content =
       Inr (?stmt,
            (if truthy (dict_get d (ascii ''schema'') PNone)
             then [dict_get d (ascii ''schema'') PNone] else []) @
            [PStr (if 37 \<in> set p \<or> 95 \<in> set p then p else [37] @ p @ [37])])"
    using ne
    by (simp add: list_tables_query_dict [OF parsed] pat like_pattern_str exn_bind_Inr
        sql_join_def sql_add_def)
  have two: "map_sum id fst (list_tables_query env (PDict ((ascii ''pattern'', PStr p') # d))) =
            map_sum id fst (list_tables_query env content)" if ne': "p' \<noteq> []" for p'
  proof -
    let ?d' = "(ascii ''pattern'', PStr p') # d"
    have parsed': "parse env (PDict ?d') = Inr (PDict ?d')" by (simp add: parse_def)
    have same: "dict_get ?d' (ascii ''include_views'') x = dict_get d (ascii ''include_views'') x"
      "dict_get ?d' (ascii ''schema'') x = dict_get d (ascii ''schema'') x"
      "dict_get ?d' (ascii ''limit'') x = dict_get d (ascii ''limit'') x" for x
      by (simp_all add: dict_get_def ascii_def)
    have pat': "dict_get ?d' (ascii ''pattern'') PNone = PStr p'"
      by (simp add: dict_get_def)
    have "map_sum id fst (list_tables_query env (PDict ?d')) = Inr ?stmt"
      using ne'
      by (simp add: list_tables_query_dict [OF parsed'] pat' same like_pattern_str exn_bind_Inr
          sql_join_def sql_add_def)
    with one show ?thesis by simp
  qed
  from one two show "list_tables_query env content =
       Inr (?stmt,
            (if truthy (dict_get d (ascii ''schema'') PNone)
             then [dict_get d (ascii ''schema'') PNone] else []) @
            [PStr (if 37 \<in> set p \<or> 95 \<in> set p then p else [37] @ p @ [37])])
     \<and> (\<forall>p'. p' \<noteq> [] \<longrightarrow>
            map_sum id fst (list_tables_query env (PDict ((ascii ''pattern'', PStr p') # d))) =
            map_sum id fst (list_tables_query env content))"
    by blast
qed

theorem list_tables_pattern_bound_witness:
  "list_tables_query example_env (PDict [(ascii ''pattern'', PStr (ascii ''user''))]) =
     Inr (Composed
            [SQL (ascii ''SELECT table_schema, table_name, table_type FROM information_schema.tables WHERE ''),
             SQL (ascii ''1=1''), SQL (ascii '' AND ''),
             SQL (ascii ''table_type = '' @ [39] @ ascii ''BASE TABLE'' @ [39]), SQL (ascii '' AND ''),
             Composed [SQL (ascii ''table_name ILIKE ''), Placeholder],
             SQL (ascii '' ORDER BY table_schema, table_name''),
             SQL (ascii '' LIMIT ''), Literal_sql (PInt 200)],
          [PStr (ascii ''%user%'')])
   \<and> snd (projr (list_tables_query example_env (PDict [(ascii ''pattern'', PStr (ascii ''us_r''))]))) =
     [PStr (ascii ''us_r'')]"
  using list_tables_pattern_bound [of example_env "PDict [(ascii ''pattern'', PStr (ascii ''user''))]"
      "[(ascii ''pattern'', PStr (ascii ''user''))]" "ascii ''user''"]
    list_tables_pattern_bound [of example_env "PDict [(ascii ''pattern'', PStr (ascii ''us_r''))]"
      "[(ascii ''pattern'', PStr (ascii ''us_r''))]" "ascii ''us_r''"]
  by (simp add: parse_def dict_get_def add_limit_def limit_applies_def sql_add_def ascii_def)


section \<open>The type fragment validator\<close>

lemma upper_keeps:
  assumes "c \<in> set s" and "c < 97"
  shows "c \<in> set (upper env s)"
proof -
  from assms(2) have "upper_char env c = [c]" by (simp add: upper_char_def)
  with assms(1) show ?thesis by (force simp: upper_def)
qed

lemma type_fragment_str:
  "type_fragment env (PStr s) =
     (if TYPE_RE_match (upper env s) then Inr s else Inl (invalid_type env (PStr s)))"
  by (simp add: type_fragment_def)

lemma type_fragment_Inr_iff:
  "type_fragment env column_type = Inr fragment \<longleftrightarrow>
     column_type = PStr fragment \<and> upper env fragment \<noteq> [] \<and> list_all type_char (upper env fragment)"
  by (cases column_type) (auto simp: type_fragment_def TYPE_RE_match_def)

lemma not_type_char: "\<not> type_char 59" "\<not> type_char 39" "\<not> type_char 45"
  by (simp_all add: type_char_def py_isspace_def)

lemma unsafe_fragment_refused:
  assumes "59 \<in> set s \<or> 39 \<in> set s \<or> (\<exists>u v. s = u @ [45, 45] @ v)"
  shows "\<not> TYPE_RE_match (upper env s)"
proof -
  from assms have "59 \<in> set s \<or> 39 \<in> set s \<or> 45 \<in> set s" by auto
  then obtain c where c: "c \<in> set s" "c = 59 \<or> c = 39 \<or> c = 45" by blast
  then have "c \<in> set (upper env s)" by (intro upper_keeps) auto
  moreover from c(2) have "\<not> type_char c" using not_type_char by auto
  ultimately show ?thesis by (auto simp: TYPE_RE_match_def list_all_iff)
qed

lemma upper_ascii:
  assumes "\<forall>c \<in> set s. c < 128"
  shows "upper env s = map (\<lambda>c. if 97 \<le> c \<and> c \<le> 122 then c - 32 else c) s"
  using assms by (induction s) (auto simp: upper_def upper_char_def)

lemma type_char_upper:
  "type_char (if 97 \<le> c \<and> c \<le> 122 then c - 32 else c) \<longleftrightarrow> type_char c \<or> (97 \<le> c \<and> c \<le> 122)"
proof (cases "97 \<le> c \<and> c \<le> 122")
  case True
  then have "65 \<le> c - 32 \<and> c - 32 \<le> 90" by arith
  then have "type_char (c - 32)" unfolding type_char_def by blast
  with True show ?thesis by simp
next
  case False
  then show ?thesis by auto
qed

lemma ascii_fragment:
  assumes "\<forall>c \<in> set s. c < 128"
  shows "TYPE_RE_match (upper env s) \<longleftrightarrow>
           s \<noteq> [] \<and> list_all (\<lambda>c. type_char c \<or> (97 \<le> c \<and> c \<le> 122)) s"
  by (simp add: TYPE_RE_match_def upper_ascii [OF assms] list.pred_map comp_def type_char_upper)

lemma column_defs_Inr:
  "column_defs env cols = Inr defs \<Longrightarrow>
   \<exists>typed. cols = map (\<lambda>(n, s). (n, PStr s)) typed
         \<and> defs = map (\<lambda>(n, s). Composed [Identifier n, SQL (ascii '' ''), SQL s]) typed
         \<and> list_all (\<lambda>(n, s). TYPE_RE_match (upper env s) \<and> IDENTIFIER_RE_match n) typed"
proof (induction cols arbitrary: defs)
  case Nil
  then show ?case by simp
next
  case (Cons col cols)
  obtain n t where col: "col = (n, t)" by (cases col)
  from Cons.prems obtain s rest where t: "t = PStr s" and ok: "TYPE_RE_match (upper env s)"
    and n: "IDENTIFIER_RE_match n" and rest: "column_defs env cols = Inr rest"
    and defs: "defs = Composed [Identifier n, SQL (ascii '' ''), SQL s] # rest"
    by (auto simp: col exn_bind_Inr_iff type_fragment_Inr_iff ident_Inr_iff TYPE_RE_match_def)
  from Cons.IH [OF rest] obtain typed where
    "cols = map (\<lambda>(n, s). (n, PStr s)) typed"
    "rest = map (\<lambda>(n, s). Composed [Identifier n, SQL (ascii '' ''), SQL s]) typed"
    "list_all (\<lambda>(n, s). TYPE_RE_match (upper env s) \<and> IDENTIFIER_RE_match n) typed"
    by blast
  with col t ok n defs
  have "col # cols = map (\<lambda>(n, s). (n, PStr s)) ((n, s) # typed)
         \<and> defs = map (\<lambda>(n, s). Composed [Identifier n, SQL (ascii '' ''), SQL s]) ((n, s) # typed)
         \<and> list_all (\<lambda>(n, s). TYPE_RE_match (upper env s) \<and> IDENTIFIER_RE_match n) ((n, s) # typed)"
    by simp
  then show ?case by (rule exI [where x = "(n, s) # typed"])
qed

lemma create_query_dict:
  assumes "parse env content = Inr (PDict d)"
    and "map_of d (ascii ''columns'') = Some columns"
  shows "create_query env content =
           (case map_of d (ascii ''table'') of
              None \<Rightarrow> Inl (KeyError (ascii ''table''))
            | Some table \<Rightarrow>
               (case dict_items columns of
                  None \<Rightarrow> Inl (dict_empty (ascii ''columns''))
                | Some cols \<Rightarrow>
                    if cols = [] then Inl (dict_empty (ascii ''columns''))
                    else
                      exn_bind (column_defs env cols) (\<lambda>defs.
                      exn_bind (ident env table) (\<lambda>tbl.
                        Inr (table,
                             Composed [SQL (ascii ''CREATE TABLE ''),
                                       (if truthy (dict_get d (ascii ''if_not_exists'') (PBool True))
                                        then SQL (ascii ''IF NOT EXISTS '') else SQL []),
                                       tbl,
                                       SQL (ascii '' (''),
                                       sql_join (SQL (ascii '', '')) defs,
                                       SQL (ascii '')'')])))))"
  using assms
  by (simp add: create_query_def py_getitem_def py_get_def exn_bind_Inr exn_bind_Inl
      split: option.splits)

text \<open>
  C6.  A type fragment that holds a semicolon, a single quote or two hyphens in a row is
  refused, and \<open>create_sql_table\<close> with such a fragment among its columns raises before
  a statement is built and executes nothing.  The check accepts a value exactly when it
  is a string whose upper-cased copy is not empty and lies in the class
  \<open>[A-Z0-9_(),\s]\<close>; on an ASCII string this means letters of either case, digits,
  underscore, parentheses, comma and white space.  When the statement is built, each
  column definition carries the fragment as it was given, not its upper-cased copy.
\<close>

theorem type_fragment_validator:
  "(59 \<in> set s \<or> 39 \<in> set s \<or> (\<exists>u v. s = u @ [45, 45] @ v) \<longrightarrow>
      type_fragment env (PStr s) = Inl (invalid_type env (PStr s))
      \<and> (\<forall>d cols name. parse env content = Inr (PDict d)
            \<and> map_of d (ascii ''columns'') = Some (PDict cols) \<and> (name, PStr s) \<in> set cols \<longrightarrow>
            (\<exists>e. create_query env content = Inl e \<and> create_sql_table env content = (Inl e, []))))
   \<and> (type_fragment env column_type = Inr fragment \<longleftrightarrow>
        column_type = PStr fragment \<and> upper env fragment \<noteq> []
        \<and> list_all type_char (upper env fragment))
   \<and> ((\<forall>c \<in> set s. c < 128) \<longrightarrow>
        (type_fragment env (PStr s) = Inr s \<longleftrightarrow>
           s \<noteq> [] \<and> list_all (\<lambda>c. type_char c \<or> (97 \<le> c \<and> c \<le> 122)) s))
   \<and> (\<forall>d columns table query. parse env content = Inr (PDict d)
          \<and> map_of d (ascii ''columns'') = Some columns
          \<and> create_query env content = Inr (table, query) \<longrightarrow>
        (\<exists>typed name.
           columns = PDict (map (\<lambda>(n, s). (n, PStr s)) typed) \<and> table = PStr name
           \<and> list_all (\<lambda>(n, s). TYPE_RE_match (upper env s)) typed
           \<and> query =
               Composed [SQL (ascii ''CREATE TABLE ''),
                         (if truthy (dict_get d (ascii ''if_not_exists'') (PBool True))
                          then SQL (ascii ''IF NOT EXISTS '') else SQL []),
                         Identifier name,
                         SQL (ascii '' (''),
                         Composed (intersperse (SQL (ascii '', ''))
                           (map (\<lambda>(n, s). Composed [Identifier n, SQL (ascii '' ''), SQL s]) typed)),
                         SQL (ascii '')'')]))"
proof (intro conjI impI allI)
  assume bad: "59 \<in> set s \<or> 39 \<in> set s \<or> (\<exists>u v. s = u @ [45, 45] @ v)"
  then have no: "\<not> TYPE_RE_match (upper env s)" by (rule unsafe_fragment_refused)
  then show "type_fragment env (PStr s) = Inl (invalid_type env (PStr s))"
    by (simp add: type_fragment_str)
  show "\<exists>e. create_query env content = Inl e \<and> create_sql_table env content = (Inl e, [])"
    if h: "parse env content = Inr (PDict d) \<and> map_of d (ascii ''columns'') = Some (PDict cols)
           \<and> (name, PStr s) \<in> set cols" for d cols name
  proof (cases "create_query env content")
    case (Inl e)
    then show ?thesis by (simp add: operation_query_Inl)
  next
    case (Inr r)
    obtain table query where r: "r = (table, query)" by (cases r)
    from h have ne: "cols \<noteq> []" by auto
    from h have p: "parse env content = Inr (PDict d)"
      and c: "map_of d (ascii ''columns'') = Some (PDict cols)" by simp_all
    from Inr r ne obtain defs where "column_defs env cols = Inr defs"
      unfolding create_query_dict [OF p c]
      by (cases "map_of d (ascii ''table'')") (auto simp: exn_bind_Inr_iff)
    from column_defs_Inr [OF this] obtain typed where
      cols: "cols = map (\<lambda>(n, s). (n, PStr s)) typed"
      and ok: "list_all (\<lambda>(n, s). TYPE_RE_match (upper env s) \<and> IDENTIFIER_RE_match n) typed"
      by blast
    from h cols have "(name, s) \<in> set typed" by auto
    with ok have "TYPE_RE_match (upper env s)" by (auto simp: list_all_iff)
    with no show ?thesis by simp
  qed
next
  show "type_fragment env column_type = Inr fragment \<longleftrightarrow>
        column_type = PStr fragment \<and> upper env fragment \<noteq> []
        \<and> list_all type_char (upper env fragment)"
    by (rule type_fragment_Inr_iff)
next
  assume "\<forall>c \<in> set s. c < 128"
  then show "type_fragment env (PStr s) = Inr s \<longleftrightarrow>
           s \<noteq> [] \<and> list_all (\<lambda>c. type_char c \<or> (97 \<le> c \<and> c \<le> 122)) s"
    by (simp add: type_fragment_str ascii_fragment)
next
  fix d columns table query
  assume h: "parse env content = Inr (PDict d) \<and> map_of d (ascii ''columns'') = Some columns
          \<and> create_query env content = Inr (table, query)"
  then have p: "parse env content = Inr (PDict d)"
    and c: "map_of d (ascii ''columns'') = Some columns"
    and q: "create_query env content = Inr (table, query)" by simp_all
  from q obtain cols where items: "dict_items columns = Some cols"
    unfolding create_query_dict [OF p c]
    by (cases "map_of d (ascii ''table'')"; cases "dict_items columns") simp_all
  then have columns: "columns = PDict cols" by (cases columns) simp_all
  from q items obtain defs tbl where
    defs: "column_defs env cols = Inr defs" and tbl: "ident env table = Inr tbl"
    and query: "query = Composed [SQL (ascii ''CREATE TABLE ''),
                         (if truthy (dict_get d (ascii ''if_not_exists'') (PBool True))
                          then SQL (ascii ''IF NOT EXISTS '') else SQL []),
                         tbl, SQL (ascii '' (''), sql_join (SQL (ascii '', '')) defs,
                         SQL (ascii '')'')]"
    unfolding create_query_dict [OF p c]
    by (cases "map_of d (ascii ''table'')"; cases "cols = []")
       (auto simp: exn_bind_Inr_iff)
  from column_defs_Inr [OF defs] obtain typed where
    cols: "cols = map (\<lambda>(n, s). (n, PStr s)) typed"
    and d: "defs = map (\<lambda>(n, s). Composed [Identifier n, SQL (ascii '' ''), SQL s]) typed"
    and ok: "list_all (\<lambda>(n, s). TYPE_RE_match (upper env s) \<and> IDENTIFIER_RE_match n) typed"
    by blast
  from tbl obtain name where name: "table = PStr name" "tbl = Identifier name"
    by (auto simp: ident_Inr_iff)
  from ok have "list_all (\<lambda>(n, s). TYPE_RE_match (upper env s)) typed"
    by (auto simp: list_all_iff)
  with columns cols d name query
  show "\<exists>typed name.
           columns = PDict (map (\<lambda>(n, s). (n, PStr s)) typed) \<and> table = PStr name
           \<and> list_all (\<lambda>(n, s). TYPE_RE_match (upper env s)) typed
           \<and> query =
               Composed [SQL (ascii ''CREATE TABLE ''),
                         (if truthy (dict_get d (ascii ''if_not_exists'') (PBool True))
                          then SQL (ascii ''IF NOT EXISTS '') else SQL []),
                         Identifier name,
                         SQL (ascii '' (''),
                         Composed (intersperse (SQL (ascii '', ''))
                           (map (\<lambda>(n, s). Composed [Identifier n, SQL (ascii '' ''), SQL s]) typed)),
                         SQL (ascii '')'')]"
    by (auto simp: sql_join_def)
qed

theorem type_fragment_validator_witness:
  "type_fragment example_env (PStr (ascii ''INT; DROP TABLE x'')) =
     Inl (invalid_type example_env (PStr (ascii ''INT; DROP TABLE x'')))
   \<and> type_fragment example_env (PStr (ascii ''INT --x'')) =
     Inl (invalid_type example_env (PStr (ascii ''INT --x'')))
   \<and> create_sql_table example_env
        (PDict [(ascii ''table'', PStr (ascii ''t'')),
                (ascii ''columns'', PDict [(ascii ''id'', PStr (ascii ''INT'' @ [39]))])]) =
     (Inl (invalid_type example_env (PStr (ascii ''INT'' @ [39]))), [])
   \<and> type_fragment example_env (PStr (ascii ''int primary key'')) = Inr (ascii ''int primary key'')
   \<and> create_query example_env
        (PDict [(ascii ''table'', PStr (ascii ''t'')),
                (ascii ''columns'', PDict [(ascii ''id'', PStr (ascii ''int primary key''))])]) =
     Inr (PStr (ascii ''t''),
          Composed [SQL (ascii ''CREATE TABLE ''), SQL (ascii ''IF NOT EXISTS ''),
                    Identifier (ascii ''t''), SQL (ascii '' (''),
                    Composed [Composed [Identifier (ascii ''id''), SQL (ascii '' ''),
                                        SQL (ascii ''int primary key'')]],
                    SQL (ascii '')'')])"
proof -
  have a: "type_fragment example_env (PStr (ascii ''INT; DROP TABLE x'')) =
     Inl (invalid_type example_env (PStr (ascii ''INT; DROP TABLE x'')))"
    using type_fragment_validator [of "ascii ''INT; DROP TABLE x''" example_env]
    by (simp add: ascii_def)
  have "ascii ''INT --x'' = ascii ''INT '' @ [45, 45] @ ascii ''x''" by (simp add: ascii_def)
  then have b: "type_fragment example_env (PStr (ascii ''INT --x'')) =
     Inl (invalid_type example_env (PStr (ascii ''INT --x'')))"
    using type_fragment_validator [of "ascii ''INT --x''" example_env] by blast
  have c: "create_sql_table example_env
        (PDict [(ascii ''table'', PStr (ascii ''t'')),
                (ascii ''columns'', PDict [(ascii ''id'', PStr (ascii ''INT'' @ [39]))])]) =
     (Inl (invalid_type example_env (PStr (ascii ''INT'' @ [39]))), [])"
    using type_fragment_validator [of "ascii ''INT'' @ [39]" example_env]
    by (simp add: create_sql_table_def create_query_def parse_def py_getitem_def py_get_def
        exn_bind_def ascii_def)
  have lower: "\<forall>c \<in> set (ascii ''int primary key''). c < 128" by (simp add: ascii_def)
  have d: "type_fragment example_env (PStr (ascii ''int primary key'')) = Inr (ascii ''int primary key'')"
    using type_fragment_validator [of "ascii ''int primary key''" example_env] lower
    by (simp add: ascii_def type_char_def py_isspace_def)
  have e: "create_query example_env
        (PDict [(ascii ''table'', PStr (ascii ''t'')),
                (ascii ''columns'', PDict [(ascii ''id'', PStr (ascii ''int primary key''))])]) =
     Inr (PStr (ascii ''t''),
          Composed [SQL (ascii ''CREATE TABLE ''), SQL (ascii ''IF NOT EXISTS ''),
                    Identifier (ascii ''t''), SQL (ascii '' (''),
                    Composed [Composed [Identifier (ascii ''id''), SQL (ascii '' ''),
                                        SQL (ascii ''int primary key'')]],
                    SQL (ascii '')'')])"
    using d
    by (simp add: create_query_def parse_def py_getitem_def py_get_def dict_get_def exn_bind_def
        sql_join_def ident_def IDENTIFIER_RE_match_def ident_start_def ident_char_def
        at_dollar_def ascii_def)
  from a b c d e show ?thesis by blast
qed

section \<open>The dispatcher\<close>

lemma caught_Inl: "caught (Inl e, events) wrap = (Tool_error (Str_exc e), events)"
  by (simp add: caught_def)

lemma caught_Inr: "caught (Inr r, events) wrap = (wrap r, events)"
  by (simp add: caught_def)

lemma envelope_of_caught:
  assumes known: "map_of operations name = Some known_operation"
    and dispatch: "tool_dispatch env name content = caught (known_operation env content) wrap"
    and wrap: "\<And>r. \<exists>message data. wrap r = Tool_ok message data"
  shows "(map_of operations name = None \<longrightarrow>
      tool_dispatch env name content =
        (Tool_error (Text (ascii ''Bilinmeyen tool: '' @ name)), []))
   \<and> (\<forall>operation e events.
         map_of operations name = Some operation \<and> operation env content = (Inl e, events) \<longrightarrow>
         tool_dispatch env name content = (Tool_error (Str_exc e), events))
   \<and> (\<forall>operation result events.
         map_of operations name = Some operation \<and> operation env content = (Inr result, events) \<longrightarrow>
         (\<exists>message data. tool_dispatch env name content = (Tool_ok message data, events)))"
proof (intro conjI impI allI)
  assume "map_of operations name = None"
  with known show "tool_dispatch env name content =
        (Tool_error (Text (ascii ''Bilinmeyen tool: '' @ name)), [])"
    by simp
next
  fix operation e events
  assume "map_of operations name = Some operation \<and> operation env content = (Inl e, events)"
  with known have "known_operation env content = (Inl e, events)" by simp
  then show "tool_dispatch env name content = (Tool_error (Str_exc e), events)"
    by (simp add: dispatch caught_Inl)
next
  fix operation result events
  assume "map_of operations name = Some operation \<and> operation env content = (Inr result, events)"
  with known have "known_operation env content = (Inr result, events)" by simp
  with wrap [of result]
  show "\<exists>message data. tool_dispatch env name content = (Tool_ok message data, events)"
    by (simp add: dispatch caught_Inr)
qed

lemma tool_dispatch_envelope:
  "(map_of operations name = None \<longrightarrow>
      tool_dispatch env name content =
        (Tool_error (Text (ascii ''Bilinmeyen tool: '' @ name)), []))
   \<and> (\<forall>operation e events.
         map_of operations name = Some operation \<and> operation env content = (Inl e, events) \<longrightarrow>
         tool_dispatch env name content = (Tool_error (Str_exc e), events))
   \<and> (\<forall>operation result events.
         map_of operations name = Some operation \<and> operation env content = (Inr result, events) \<longrightarrow>
         (\<exists>message data. tool_dispatch env name content = (Tool_ok message data, events)))"
proof -
  consider (create) "name = ascii ''create_sql_table''"
    | (drop) "name = ascii ''drop_sql_table''"
    | (insert) "name = ascii ''insert_sql_entry''"
    | (read) "name = ascii ''read_sql_entry''"
    | (delete) "name = ascii ''delete_sql_entry''"
    | (update) "name = ascii ''update_sql_entry''"
    | (list) "name = ascii ''list_tables''"
    | (unknown) "name \<noteq> ascii ''create_sql_table''" "name \<noteq> ascii ''drop_sql_table''"
        "name \<noteq> ascii ''insert_sql_entry''" "name \<noteq> ascii ''read_sql_entry''"
        "name \<noteq> ascii ''delete_sql_entry''" "name \<noteq> ascii ''update_sql_entry''"
        "name \<noteq> ascii ''list_tables''"
    by blast
  then show ?thesis
  proof cases
    case create
    show ?thesis
      by (rule envelope_of_caught [where known_operation = create_sql_table])
         (auto simp: create operations_def tool_dispatch_def ascii_def)
  next
    case drop
    show ?thesis
      by (rule envelope_of_caught [where known_operation = drop_sql_table])
         (auto simp: drop operations_def tool_dispatch_def ascii_def)
  next
    case insert
    show ?thesis
      by (rule envelope_of_caught [where known_operation = insert_sql_entry])
         (auto simp: insert operations_def tool_dispatch_def ascii_def)
  next
    case read
    show ?thesis
      by (rule envelope_of_caught [where known_operation = read_sql_entry])
         (auto simp: read operations_def tool_dispatch_def ascii_def)
  next
    case delete
    show ?thesis
      by (rule envelope_of_caught [where known_operation = delete_sql_entry])
         (auto simp: delete operations_def tool_dispatch_def ascii_def)
  next
    case update
    show ?thesis
      by (rule envelope_of_caught [where known_operation = update_sql_entry])
         (auto simp: update operations_def tool_dispatch_def ascii_def)
  next
    case list
    show ?thesis
      by (rule envelope_of_caught [where known_operation = list_tables])
         (auto simp: list operations_def tool_dispatch_def ascii_def)
  next
    case unknown
    then have none: "map_of operations name = None" by (simp add: operations_def)
    from unknown have "tool_dispatch env name content =
        (Tool_error (Text (ascii ''Bilinmeyen tool: '' @ name)), [])"
      by (simp add: tool_dispatch_def)
    with none show ?thesis by simp
  qed
qed

lemma strip_no_space:
  assumes "s = [] \<or> (\<not> py_isspace (hd s) \<and> \<not> py_isspace (last s))"
  shows "strip s = s"
proof (cases s)
  case Nil
  then show ?thesis by (simp add: strip_def)
next
  case (Cons c cs)
  with assms have first: "\<not> py_isspace c" and final: "\<not> py_isspace (last s)" by simp_all
  from first Cons have "dropWhile py_isspace s = s" by simp
  moreover have "dropWhile py_isspace (rev s) = rev s"
  proof -
    have "hd (rev s) = last s" by (rule hd_rev)
    with final have "\<not> py_isspace (hd (rev s))" by simp
    then show ?thesis by (simp only: dropWhile_eq_self_iff) simp
  qed
  ultimately show ?thesis by (simp add: strip_def)
qed

text \<open>
  C2, as the source has it.  When the function call carries a \<open>dict\<close> of arguments, no
  exception escapes: the result is the envelope of the \<open>try\<close> block, run on the name
  stripped of surrounding white space and on the \<open>content\<close> argument.  When the
  stripped name is none of the seven operations, the envelope is
  \<open>{"ok": False, "error": "Bilinmeyen tool: <stripped name>"}\<close> and nothing is executed;
  when the operation raises an exception \<open>exc\<close>, the envelope is
  \<open>{"ok": False, "error": str(exc)}\<close>; when it returns, the envelope has \<open>"ok": True\<close>.
  A name without white space at its ends is looked up as it is.
\<close>

theorem dispatcher_envelope:
  "(\<exists>envelope events.
       handle_function_call env \<lparr>call_name = n, call_args = Some args\<rparr> = Inr (envelope, events))
   \<and> handle_function_call env \<lparr>call_name = n, call_args = Some args\<rparr> =
       Inr (tool_dispatch env (strip (case n of Some s \<Rightarrow> s | None \<Rightarrow> []))
              (dict_get args (ascii ''content'') PNone))
   \<and> (map_of operations (strip (case n of Some s \<Rightarrow> s | None \<Rightarrow> [])) = None \<longrightarrow>
        handle_function_call env \<lparr>call_name = n, call_args = Some args\<rparr> =
          Inr (Tool_error (Text (ascii ''Bilinmeyen tool: '' @
                                  strip (case n of Some s \<Rightarrow> s | None \<Rightarrow> []))), []))
   \<and> (\<forall>operation e events.
         map_of operations (strip (case n of Some s \<Rightarrow> s | None \<Rightarrow> [])) = Some operation
         \<and> operation env (dict_get args (ascii ''content'') PNone) = (Inl e, events) \<longrightarrow>
         handle_function_call env \<lparr>call_name = n, call_args = Some args\<rparr> =
           Inr (Tool_error (Str_exc e), events))
   \<and> (\<forall>operation result events.
         map_of operations (strip (case n of Some s \<Rightarrow> s | None \<Rightarrow> [])) = Some operation
         \<and> operation env (dict_get args (ascii ''content'') PNone) = (Inr result, events) \<longrightarrow>
         (\<exists>message data.
            handle_function_call env \<lparr>call_name = n, call_args = Some args\<rparr> =
              Inr (Tool_ok message data, events)))
   \<and> (\<forall>s. n = Some s \<and> (s = [] \<or> (\<not> py_isspace (hd s) \<and> \<not> py_isspace (last s))) \<longrightarrow>
         strip (case n of Some s \<Rightarrow> s | None \<Rightarrow> []) = s)"
proof -
  let ?name = "strip (case n of Some s \<Rightarrow> s | None \<Rightarrow> [])"
  let ?content = "dict_get args (ascii ''content'') PNone"
  have run: "handle_function_call env \<lparr>call_name = n, call_args = Some args\<rparr> =
       Inr (tool_dispatch env ?name ?content)"
    by (simp add: handle_function_call_def exn_bind_Inr)
  have returns: "\<exists>envelope events.
       handle_function_call env \<lparr>call_name = n, call_args = Some args\<rparr> = Inr (envelope, events)"
    unfolding run by (cases "tool_dispatch env ?name ?content") simp
  have stripped: "\<forall>s. n = Some s \<and> (s = [] \<or> (\<not> py_isspace (hd s) \<and> \<not> py_isspace (last s))) \<longrightarrow>
         strip (case n of Some s \<Rightarrow> s | None \<Rightarrow> []) = s"
    by (auto simp: strip_no_space)
  note dispatch = tool_dispatch_envelope [of ?name env ?content]
  have unknown: "map_of operations ?name = None \<longrightarrow>
        handle_function_call env \<lparr>call_name = n, call_args = Some args\<rparr> =
          Inr (Tool_error (Text (ascii ''Bilinmeyen tool: '' @ ?name)), [])"
    using dispatch by (auto simp: run)
  have raised: "\<forall>operation e events.
         map_of operations ?name = Some operation
         \<and> operation env ?content = (Inl e, events) \<longrightarrow>
         handle_function_call env \<lparr>call_name = n, call_args = Some args\<rparr> =
           Inr (Tool_error (Str_exc e), events)"
    using dispatch by (auto simp: run)
  have returned: "\<forall>operation result events.
         map_of operations ?name = Some operation
         \<and> operation env ?content = (Inr result, events) \<longrightarrow>
         (\<exists>message data.
            handle_function_call env \<lparr>call_name = n, call_args = Some args\<rparr> =
              Inr (Tool_ok message data, events))"
    using dispatch by (auto simp: run)
  from returns run unknown raised returned stripped show ?thesis
    by (intro conjI)
qed

text \<open>
  C2 as stated gives the text \<open>unknown operation: <name>\<close> for an unknown name and
  looks the name up as given.  The source answers in Turkish, and it strips the name
  first: the name \<open>list_tables\<close> between two spaces is none of the seven names, and the
  source runs \<open>list_tables\<close> for it.
\<close>

theorem unknown_operation_message:
  "handle_function_call example_env \<lparr>call_name = Some (ascii ''foo''), call_args = Some []\<rparr> =
     Inr (Tool_error (Text (ascii ''Bilinmeyen tool: foo'')), [])
   \<and> handle_function_call example_env \<lparr>call_name = Some (ascii ''foo''), call_args = Some []\<rparr> \<noteq>
     Inr (Tool_error (Text (ascii ''unknown operation: foo'')), [])
   \<and> map_of operations (ascii '' list_tables '') = None
   \<and> map_sum id fst
        (handle_function_call example_env
           \<lparr>call_name = Some (ascii '' list_tables ''),
            call_args = Some [(ascii ''content'', PDict [])]\<rparr>) =
     Inr (Tool_ok (PStr (ascii ''Tablolar''))
            (Some (PDict [(ascii ''count'', PInt 0), (ascii ''tables'', PList [])])))"
proof -
  have a: "strip (ascii ''foo'') = ascii ''foo''"
    by (simp add: strip_def py_isspace_def ascii_def)
  have b: "strip (ascii '' list_tables '') = ascii ''list_tables''"
    by (simp add: strip_def py_isspace_def ascii_def)
  have c: "map_of operations (ascii '' list_tables '') = None"
    by (simp add: operations_def ascii_def)
  have d: "tool_dispatch example_env (ascii ''foo'') PNone =
      (Tool_error (Text (ascii ''Bilinmeyen tool: foo'')), [])"
    by (simp add: tool_dispatch_def ascii_def)
  have e: "fst (tool_dispatch example_env (ascii ''list_tables'') (PDict [])) =
     Tool_ok (PStr (ascii ''Tablolar''))
       (Some (PDict [(ascii ''count'', PInt 0), (ascii ''tables'', PList [])]))"
    by (simp add: tool_dispatch_def caught_def list_tables_def list_tables_query_def parse_def
        py_get_def dict_get_def exn_bind_def run_def db_cursor_def counted_def example_env_def
        ascii_def split: prod.splits sum.splits)
  have f: "dict_get [(ascii ''content'', PDict [])] (ascii ''content'') PNone = PDict []"
    "dict_get [] (ascii ''content'') PNone = PNone"
    by (simp_all add: dict_get_def)
  have g: "ascii ''Bilinmeyen tool: foo'' \<noteq> ascii ''unknown operation: foo''"
    by (simp add: ascii_def)
  from a b c d e f g show ?thesis
    by (simp add: handle_function_call_def exn_bind_Inr)
qed

theorem dispatcher_envelope_witness:
  "handle_function_call example_env
     \<lparr>call_name = Some (ascii ''drop_table''), call_args = Some []\<rparr> =
     Inr (Tool_error (Text (ascii ''Bilinmeyen tool: drop_table'')), [])
   \<and> handle_function_call example_env
        \<lparr>call_name = Some (ascii ''delete_sql_entry''),
         call_args = Some [(ascii ''content'', PDict [(ascii ''table'', PStr (ascii ''person''))])]\<rparr> =
     Inr (Tool_error (Str_exc where_required), [])
   \<and> handle_function_call example_env
        \<lparr>call_name = Some (ascii ''read_sql_entry''), call_args = Some []\<rparr> =
     Inr (Tool_error (Str_exc content_empty), [])"
proof -
  have s1: "strip (ascii ''drop_table'') = ascii ''drop_table''"
    "strip (ascii ''delete_sql_entry'') = ascii ''delete_sql_entry''"
    "strip (ascii ''read_sql_entry'') = ascii ''read_sql_entry''"
    by (simp_all add: strip_def py_isspace_def ascii_def)
  have none: "map_of operations (ascii ''drop_table'') = None"
    by (simp add: operations_def ascii_def)
  have cat: "ascii ''Bilinmeyen tool: '' @ ascii ''drop_table'' = ascii ''Bilinmeyen tool: drop_table''"
    by (simp add: ascii_def)
  have a: "handle_function_call example_env
     \<lparr>call_name = Some (ascii ''drop_table''), call_args = Some []\<rparr> =
     Inr (Tool_error (Text (ascii ''Bilinmeyen tool: drop_table'')), [])"
    using dispatcher_envelope [of example_env "Some (ascii ''drop_table'')" "[]",
        THEN conjunct2, THEN conjunct2, THEN conjunct1] none cat
    by (simp add: s1)
  have del: "map_of operations (ascii ''delete_sql_entry'') = Some delete_sql_entry"
    by (simp add: operations_def ascii_def)
  have content: "dict_get [(ascii ''content'', PDict [(ascii ''table'', PStr (ascii ''person''))])]
      (ascii ''content'') PNone = PDict [(ascii ''table'', PStr (ascii ''person''))]"
    by (simp add: dict_get_def)
  have failed: "delete_sql_entry example_env (PDict [(ascii ''table'', PStr (ascii ''person''))]) =
      (Inl where_required, [])"
    by (simp add: delete_sql_entry_def delete_query_def parse_def py_getitem_def py_get_def
        dict_get_def exn_bind_def run_def ascii_def)
  have b: "handle_function_call example_env
        \<lparr>call_name = Some (ascii ''delete_sql_entry''),
         call_args = Some [(ascii ''content'', PDict [(ascii ''table'', PStr (ascii ''person''))])]\<rparr> =
     Inr (Tool_error (Str_exc where_required), [])"
    using dispatcher_envelope [of example_env "Some (ascii ''delete_sql_entry'')"
        "[(ascii ''content'', PDict [(ascii ''table'', PStr (ascii ''person''))])]",
        THEN conjunct2, THEN conjunct2, THEN conjunct2, THEN conjunct1, rule_format,
        of delete_sql_entry where_required "[]"]
      del failed
    by (simp add: s1 content)
  have rd: "map_of operations (ascii ''read_sql_entry'') = Some read_sql_entry"
    by (simp add: operations_def ascii_def)
  have missing: "dict_get [] (ascii ''content'') PNone = PNone" by (simp add: dict_get_def)
  have refused: "read_sql_entry example_env PNone = (Inl content_empty, [])"
    by (simp add: read_sql_entry_def read_query_def parse_def exn_bind_def run_def)
  have c: "handle_function_call example_env
        \<lparr>call_name = Some (ascii ''read_sql_entry''), call_args = Some []\<rparr> =
     Inr (Tool_error (Str_exc content_empty), [])"
    using dispatcher_envelope [of example_env "Some (ascii ''read_sql_entry'')" "[]",
        THEN conjunct2, THEN conjunct2, THEN conjunct2, THEN conjunct1, rule_format,
        of read_sql_entry content_empty "[]"]
      rd refused
    by (simp add: s1 missing)
  from a b c show ?thesis by blast
qed

text \<open>
  The conversion of the arguments stands before the \<open>try\<close> block: a function call
  without arguments ends in the \<open>TypeError\<close> of \<open>dict(None)\<close>, not in an envelope.
\<close>

lemma missing_arguments_escape:
  "handle_function_call env \<lparr>call_name = n, call_args = None\<rparr> = Inl TypeError"
  by (simp add: handle_function_call_def exn_bind_Inl)

end
